theory Spec2Isabelle
  imports Complex_Main
begin

section \<open>Endicia shipping on sale orders (sale.py)\<close>

text \<open>
  A shallow embedding of \<^verbatim>\<open>sale.py\<close>: the weight of a sale line for the postage
  request (\<^verbatim>\<open>SaleLine.get_weight_for_endicia\<close>), the postage quote of an order
  (\<^verbatim>\<open>Sale.get_endicia_shipping_cost\<close>), rate shopping over the mail classes
  (\<^verbatim>\<open>Sale.get_endicia_shipping_rates\<close>) and the shipping line written on the order
  (\<^verbatim>\<open>Sale.apply_endicia_shipping\<close>).

  Python's \<^verbatim>\<open>Decimal\<close> values are rationals. A \<^verbatim>\<open>float\<close> is the rational it
  denotes; the rounding of a float product is the platform's and is a parameter of the
  model (\<open>float_mul\<close>). A field that may be \<^verbatim>\<open>None\<close> is an \<open>option\<close>.
\<close>

type_synonym decimal = rat
type_synonym float = rat

subsection \<open>Exceptions\<close>

text \<open>
  \<^verbatim>\<open>raise_user_error\<close> raises trytond's \<^verbatim>\<open>UserError\<close>. The module raises it at three
  places, which the constructors keep apart:
  \<^item> \<open>MailClassMissingError\<close>: \<^verbatim>\<open>self.raise_user_error('mailclass_missing')\<close>;
  \<^item> \<open>MissingWeightError name\<close>:
    \<^verbatim>\<open>self.raise_user_error('weight_required', error_args=(self.product.name,))\<close>;
  \<^item> \<open>CarrierRequestError msg\<close>: \<^verbatim>\<open>self.raise_user_error(unicode(e))\<close> for a
    \<^verbatim>\<open>RequestError e\<close> of the endicia client.

  \<open>ValueError\<close> is what the single-element unpacking \<^verbatim>\<open>x, = xs\<close> raises when
  \<^verbatim>\<open>xs\<close> does not hold exactly one element. \<open>OtherException\<close> is any other exception
  of a collaborator (a transport failure that is not a \<^verbatim>\<open>RequestError\<close>, a response
  that cannot be read).
\<close>

datatype exn =
    MailClassMissingError
  | MissingWeightError string
  | CarrierRequestError string
  | ValueError
  | OtherException string

text \<open>The class test of \<^verbatim>\<open>except UserError\<close>.\<close>

fun is_UserError :: "exn \<Rightarrow> bool" where
  "is_UserError MailClassMissingError = True"
| "is_UserError (MissingWeightError n) = True"
| "is_UserError (CarrierRequestError m) = True"
| "is_UserError ValueError = False"
| "is_UserError (OtherException m) = False"

text \<open>
  The entries of \<^verbatim>\<open>_error_messages\<close> that \<^verbatim>\<open>Sale.__setup__\<close> and
  \<^verbatim>\<open>SaleLine.__setup__\<close> add, the second with its \<^verbatim>\<open>%s\<close> filled in, and the
  message of an exception that is made from them. The message of a carrier request error
  is what \<^verbatim>\<open>raise_user_error\<close> makes of the service's message and is not modelled.
\<close>

definition mailclass_missing :: string where
  "mailclass_missing = ''Select a mailclass to ship using Endicia [USPS].''"

definition weight_required :: "string \<Rightarrow> string" where
  "weight_required product_name = ''Weight is missing on the product '' @ product_name"

fun error_message :: "exn \<Rightarrow> string option" where
  "error_message MailClassMissingError = Some mailclass_missing"
| "error_message (MissingWeightError n) = Some (weight_required n)"
| "error_message (CarrierRequestError m) = None"
| "error_message ValueError = None"
| "error_message (OtherException m) = None"

subsection \<open>Records of the host system\<close>

record uom =
  uom_id :: nat
  symbol :: string

record product =
  product_id :: nat
  product_name :: string
  product_type :: string
  weight :: "float option"
  weight_uom :: uom
  default_uom :: uom
  sale_uom :: uom

text \<open>
  The fields of a sale line that a \<^verbatim>\<open>create\<close> is given (\<open>line_values\<close>), and a stored
  line, which has an id besides. A reference to a record (\<^verbatim>\<open>product\<close>, \<^verbatim>\<open>unit\<close>)
  is the record it resolves to.
\<close>

record line_values =
  line_type :: string
  product :: "product option"
  description :: string
  quantity :: "float option"
  unit :: uom
  unit_price :: decimal
  shipment_cost :: "decimal option"
  amount :: decimal
  taxes :: "nat list"
  sequence :: "nat option"

record sale_line = line_values +
  line_id :: nat

record mailclass =
  mailclass_id :: nat
  mailclass_name :: string
  mailclass_value :: string

record carrier =
  carrier_id :: nat
  carrier_cost_method :: string
  carrier_product :: product

record currency =
  currency_id :: nat
  code :: string

record address =
  address_zip :: string
  country_code :: string

record credentials =
  account_id :: nat
  requester_id :: string
  passphrase :: string
  is_test :: bool

record sale =
  sale_id :: nat
  carrier :: "carrier option"
  endicia_mailclass :: "mailclass option"
  currency :: currency
  lines :: "sale_line list"
  shipment_address :: address
  warehouse_address :: address

subsection \<open>The postage request and the remote service\<close>

text \<open>The keyword arguments of \<^verbatim>\<open>CalculatingPostageAPI(...)\<close>.\<close>

record request =
  request_mailclass :: string
  weightoz :: decimal
  from_postal_code :: string
  to_postal_code :: string
  to_country_code :: string
  accountid :: nat
  requesterid :: string
  request_passphrase :: string
  test :: bool

text \<open>
  What \<^verbatim>\<open>send_request()\<close> does: it returns a response, raises \<^verbatim>\<open>RequestError\<close>
  with the service's message, or raises something else. Of a response the code reads one
  thing, \<^verbatim>\<open>Decimal(objectify_response(response).PostagePrice.get('TotalAmount'))\<close>:
  \<open>Response (Some d)\<close> is a response whose \<^verbatim>\<open>TotalAmount\<close> is a decimal literal of
  value \<open>d\<close>, \<open>Response None\<close> one where the attribute is absent or no decimal literal
  (\<^verbatim>\<open>Decimal\<close> then raises).
\<close>

datatype send_outcome =
    Response "decimal option"
  | RequestError string
  | OtherFailure string

subsection \<open>The pool: tables and collaborators outside this module\<close>

text \<open>
  \<^verbatim>\<open>Pool().get(...)\<close> gives the models of the host system. Their tables are lists in
  the order a search returns them; their methods that this module calls and does not
  define are parameters:
  \<^item> \<open>compute_qty\<close>: \<^verbatim>\<open>ProductUom.compute_qty(from_uom, qty, to_uom)\<close>;
  \<^item> \<open>float_mul\<close>: the product of two floats, as the platform rounds it;
  \<^item> \<open>compute\<close>: \<^verbatim>\<open>Currency.compute(from_currency, amount, to_currency)\<close>;
  \<^item> \<open>endicia_credentials\<close>: \<^verbatim>\<open>EndiciaConfiguration(1).get_endicia_credentials()\<close>,
    the credentials configured process-wide;
  \<^item> \<open>send_request\<close>: the remote service, answering a request;
  \<^item> \<open>get_sale_price\<close>: \<^verbatim>\<open>carrier.get_sale_price()\<close>, called in a context that
    carries the order (\<^verbatim>\<open>_get_carrier_context\<close>); it returns a pair of a cost in USD
    and a currency id, or raises;
  \<^item> \<open>get_endicia_mailclass_name\<close>: \<^verbatim>\<open>carrier._get_endicia_mailclass_name(mailclass)\<close>.
\<close>

record pool =
  uoms :: "uom list"
  compute_qty :: "uom \<Rightarrow> float \<Rightarrow> uom \<Rightarrow> float"
  float_mul :: "float \<Rightarrow> float \<Rightarrow> float"
  currencies :: "currency list"
  compute :: "currency \<Rightarrow> decimal \<Rightarrow> currency \<Rightarrow> decimal"
  carriers :: "carrier list"
  mailclasses :: "mailclass list"
  endicia_credentials :: credentials
  send_request :: "request \<Rightarrow> send_outcome"
  get_sale_price :: "carrier \<Rightarrow> sale \<Rightarrow> exn + (decimal option \<times> nat)"
  get_endicia_mailclass_name :: "carrier \<Rightarrow> mailclass \<Rightarrow> string"

text \<open>\<^verbatim>\<open>ProductUom.search([('symbol', '=', s)])\<close>.\<close>

definition ProductUom_search :: "pool \<Rightarrow> string \<Rightarrow> uom list" where
  "ProductUom_search P s = filter (\<lambda>u. symbol u = s) (uoms P)"

text \<open>\<^verbatim>\<open>Currency.search([('code', '=', c)])\<close>.\<close>

definition Currency_search :: "pool \<Rightarrow> string \<Rightarrow> currency list" where
  "Currency_search P c = filter (\<lambda>x. code x = c) (currencies P)"

text \<open>\<^verbatim>\<open>Carrier.search(['carrier_cost_method', '=', m])\<close>.\<close>

definition Carrier_search :: "pool \<Rightarrow> string \<Rightarrow> carrier list" where
  "Carrier_search P m = filter (\<lambda>c. carrier_cost_method c = m) (carriers P)"

subsection \<open>SaleLine.get_weight_for_endicia\<close>

text \<open>
  Lines 320 to 340 of the source: the value of the variable \<^verbatim>\<open>weight\<close> before it is
  rounded, for a line of product \<open>p\<close> with unit weight \<open>w\<close> and quantity \<open>q\<close>. Records
  compare by their ids (\<^verbatim>\<open>self.unit != self.product.default_uom\<close>).
\<close>

definition weight_in_ounces :: "pool \<Rightarrow> sale_line \<Rightarrow> product \<Rightarrow> float \<Rightarrow> float \<Rightarrow> exn + float" where
  "weight_in_ounces P l p w q =
     (let quantity' =
            (if uom_id (unit l) \<noteq> uom_id (default_uom p)
             then compute_qty P (unit l) q (default_uom p)
             else q);
          weight' = float_mul P w quantity'
      in if symbol (weight_uom p) \<noteq> ''oz''
         then (case ProductUom_search P ''oz'' of
                 [ounce] \<Rightarrow> Inr (compute_qty P (weight_uom p) weight' ounce)
               | _ \<Rightarrow> Inl ValueError)
         else Inr weight')"

text \<open>
  The whole method. In Python 2 \<^verbatim>\<open>None <= 0\<close> is true, so a line without a quantity
  weighs nothing. \<^verbatim>\<open>not self.product.weight\<close> holds for \<^verbatim>\<open>None\<close> and for zero.
  \<^verbatim>\<open>Decimal(math.ceil(weight))\<close> is the ceiling of the float, as a decimal.
\<close>

definition get_weight_for_endicia :: "pool \<Rightarrow> sale_line \<Rightarrow> exn + decimal" where
  "get_weight_for_endicia P l =
     (case product l of
        None \<Rightarrow> Inr 0
      | Some p \<Rightarrow>
          if product_type p = ''service'' then Inr 0
          else (case quantity l of
                  None \<Rightarrow> Inr 0
                | Some q \<Rightarrow>
                    if q \<le> 0 then Inr 0
                    else (case weight p of
                            None \<Rightarrow> Inl (MissingWeightError (product_name p))
                          | Some w \<Rightarrow>
                              if w = 0 then Inl (MissingWeightError (product_name p))
                              else (case weight_in_ounces P l p w q of
                                      Inl e \<Rightarrow> Inl e
                                    | Inr oz \<Rightarrow> Inr (of_int \<lceil>oz\<rceil>)))))"

subsection \<open>Sale.get_endicia_shipping_cost\<close>

text \<open>Python's truth of an optional string and of an optional decimal.\<close>

fun truthy_str :: "string option \<Rightarrow> bool" where
  "truthy_str None = False"
| "truthy_str (Some v) = (v \<noteq> [])"

fun truthy_decimal :: "decimal option \<Rightarrow> bool" where
  "truthy_decimal None = False"
| "truthy_decimal (Some d) = (d \<noteq> 0)"

text \<open>
  \<^verbatim>\<open>map(lambda line: line.get_weight_for_endicia(), self.lines)\<close>: the lines are
  weighed in order, and the first exception ends the call.
\<close>

fun weights :: "pool \<Rightarrow> sale_line list \<Rightarrow> exn + decimal list" where
  "weights P [] = Inr []"
| "weights P (l # ls) =
     (case get_weight_for_endicia P l of
        Inl e \<Rightarrow> Inl e
      | Inr w \<Rightarrow> (case weights P ls of Inl e \<Rightarrow> Inl e | Inr ws \<Rightarrow> Inr (w # ws)))"

text \<open>
  \<^verbatim>\<open>mailclass or self.endicia_mailclass.value\<close>. Reading \<^verbatim>\<open>.value\<close> of \<^verbatim>\<open>None\<close>
  would raise \<^verbatim>\<open>AttributeError\<close>; the check before it excludes that.
\<close>

definition mailclass_or_selected :: "sale \<Rightarrow> string option \<Rightarrow> exn + string" where
  "mailclass_or_selected s mailclass =
     (if truthy_str mailclass then (case mailclass of Some v \<Rightarrow> Inr v | None \<Rightarrow> Inr [])
      else (case endicia_mailclass s of
              Some m \<Rightarrow> Inr (mailclass_value m)
            | None \<Rightarrow> Inl (OtherException ''AttributeError'')))"

text \<open>\<^verbatim>\<open>_get_ship_from_address\<close>: the address of the warehouse.\<close>

definition get_ship_from_address :: "sale \<Rightarrow> address" where
  "get_ship_from_address s = warehouse_address s"

text \<open>The request built for mail class \<open>mc\<close> and the line weights \<open>ws\<close>.\<close>

definition calculate_postage_request :: "pool \<Rightarrow> sale \<Rightarrow> string \<Rightarrow> decimal list \<Rightarrow> request" where
  "calculate_postage_request P s mc ws =
     \<lparr>request_mailclass = mc,
      weightoz = sum_list ws,
      from_postal_code = take 5 (address_zip (get_ship_from_address s)),
      to_postal_code = take 5 (address_zip (shipment_address s)),
      to_country_code = country_code (shipment_address s),
      accountid = account_id (endicia_credentials P),
      requesterid = requester_id (endicia_credentials P),
      request_passphrase = passphrase (endicia_credentials P),
      test = is_test (endicia_credentials P)\<rparr>"

text \<open>
  The method returns its result together with the requests it sent to the remote
  service, in order. \<open>mailclass\<close> is the keyword argument (\<^verbatim>\<open>None\<close> by default).
\<close>

definition get_endicia_shipping_cost ::
    "pool \<Rightarrow> sale \<Rightarrow> string option \<Rightarrow> (exn + decimal) \<times> request list" where
  "get_endicia_shipping_cost P s mailclass =
     (if \<not> truthy_str mailclass \<and> endicia_mailclass s = None
      then (Inl MailClassMissingError, [])
      else (case mailclass_or_selected s mailclass of
              Inl e \<Rightarrow> (Inl e, [])
            | Inr mc \<Rightarrow>
                (case weights P (lines s) of
                   Inl e \<Rightarrow> (Inl e, [])
                 | Inr ws \<Rightarrow>
                     (let req = calculate_postage_request P s mc ws
                      in case send_request P req of
                           RequestError m \<Rightarrow> (Inl (CarrierRequestError m), [req])
                         | OtherFailure m \<Rightarrow> (Inl (OtherException m), [req])
                         | Response None \<Rightarrow> (Inl (OtherException ''TotalAmount''), [req])
                         | Response (Some d) \<Rightarrow> (Inr d, [req])))))"

subsection \<open>Sale.get_endicia_shipping_rates\<close>

text \<open>\<^verbatim>\<open>_get_endicia_mail_classes\<close>: \<^verbatim>\<open>Mailclass.search([])\<close>, every mail class.\<close>

definition get_endicia_mail_classes :: "pool \<Rightarrow> sale \<Rightarrow> mailclass list" where
  "get_endicia_mail_classes P s = mailclasses P"

text \<open>
  A rate line is the tuple (label, cost, currency, \<^verbatim>\<open>{}\<close>, write values); the two
  dictionaries are association lists.
\<close>

type_synonym rate_line =
  "string \<times> decimal \<times> currency \<times> (string \<times> nat) list \<times> (string \<times> nat) list"

definition make_endicia_rate_line ::
    "pool \<Rightarrow> carrier \<Rightarrow> mailclass \<Rightarrow> decimal \<Rightarrow> exn + rate_line" where
  "make_endicia_rate_line P c mc shipment_rate =
     (case Currency_search P ''USD'' of
        [usd] \<Rightarrow>
          Inr (get_endicia_mailclass_name P c mc, shipment_rate, usd, [],
               [(''carrier'', carrier_id c), (''endicia_mailclass'', mailclass_id mc)])
      | _ \<Rightarrow> Inl ValueError)"

text \<open>
  The loop over the mail classes, with the rate lines collected so far. Only the quote
  stands inside the \<^verbatim>\<open>try\<close>; \<^verbatim>\<open>except UserError\<close> re-raises when \<open>silent\<close> is
  false and goes on to the next mail class otherwise.
\<close>

fun rates_loop ::
    "pool \<Rightarrow> sale \<Rightarrow> bool \<Rightarrow> carrier \<Rightarrow> mailclass list \<Rightarrow> rate_line list
      \<Rightarrow> (exn + rate_line list) \<times> request list" where
  "rates_loop P s silent c [] rate_lines = (Inr rate_lines, [])"
| "rates_loop P s silent c (mc # mcs) rate_lines =
     (case get_endicia_shipping_cost P s (Some (mailclass_value mc)) of
        (Inl e, sent) \<Rightarrow>
          if is_UserError e then
            (if \<not> silent then (Inl e, sent)
             else (case rates_loop P s silent c mcs rate_lines of
                     (r, sent') \<Rightarrow> (r, sent @ sent')))
          else (Inl e, sent)
      | (Inr cost, sent) \<Rightarrow>
          (case make_endicia_rate_line P c mc cost of
             Inl e \<Rightarrow> (Inl e, sent)
           | Inr rate_line \<Rightarrow>
               (case rates_loop P s silent c mcs (rate_lines @ [rate_line]) of
                  (r, sent') \<Rightarrow> (r, sent @ sent'))))"

text \<open>\<^verbatim>\<open>filter(None, rate_lines)\<close> keeps the true elements; a tuple of five is true.\<close>

definition truthy_rate_line :: "rate_line \<Rightarrow> bool" where
  "truthy_rate_line rate_line = True"

definition get_endicia_shipping_rates ::
    "pool \<Rightarrow> sale \<Rightarrow> bool \<Rightarrow> (exn + rate_line list) \<times> request list" where
  "get_endicia_shipping_rates P s silent =
     (case Carrier_search P ''endicia'' of
        [c] \<Rightarrow>
          (case rates_loop P s silent c (get_endicia_mail_classes P s) [] of
             (Inl e, sent) \<Rightarrow> (Inl e, sent)
           | (Inr rate_lines, sent) \<Rightarrow> (Inr (filter truthy_rate_line rate_lines), sent))
      | _ \<Rightarrow> (Inl ValueError, []))"

subsection \<open>Sale.apply_endicia_shipping\<close>

text \<open>
  \<^verbatim>\<open>Sale.write([self], {'lines': [('create', [...]), ('delete', [...])]})\<close>: the
  actions on the lines of the order, carried out in the order given. A created line gets
  an id above every id among the lines; a delete removes the lines with the ids of the
  records it is given.
\<close>

datatype line_action = Create "line_values list" | Delete "sale_line list"

definition fresh_line_id :: "sale_line list \<Rightarrow> nat" where
  "fresh_line_id ls = Suc (fold max (map line_id ls) 0)"

definition create_line :: "nat \<Rightarrow> line_values \<Rightarrow> sale_line" where
  "create_line n v =
     \<lparr>line_type = line_type v, product = product v, description = description v,
      quantity = quantity v, unit = unit v, unit_price = unit_price v,
      shipment_cost = shipment_cost v, amount = amount v, taxes = taxes v,
      sequence = sequence v, line_id = n\<rparr>"

fun create_lines :: "sale_line list \<Rightarrow> line_values list \<Rightarrow> sale_line list" where
  "create_lines ls [] = ls"
| "create_lines ls (v # vs) = create_lines (ls @ [create_line (fresh_line_id ls) v]) vs"

fun write_lines :: "sale_line list \<Rightarrow> line_action list \<Rightarrow> sale_line list" where
  "write_lines ls [] = ls"
| "write_lines ls (Create vs # acts) = write_lines (create_lines ls vs) acts"
| "write_lines ls (Delete ds # acts) =
     write_lines (filter (\<lambda>l. line_id l \<notin> set (map line_id ds)) ls) acts"

text \<open>\<^verbatim>\<open>line.shipment_cost\<close> as a condition: the line is a shipment-cost line.\<close>

definition is_shipment_cost_line :: "sale_line \<Rightarrow> bool" where
  "is_shipment_cost_line l = truthy_decimal (shipment_cost l)"

text \<open>The values of the shipping line, for the converted cost.\<close>

definition shipping_line_values :: "carrier \<Rightarrow> mailclass \<Rightarrow> decimal \<Rightarrow> line_values" where
  "shipping_line_values c mc shipment_cost' =
     \<lparr>line_type = ''line'',
      product = Some (carrier_product c),
      description = mailclass_name mc,
      quantity = Some 1,
      unit = sale_uom (carrier_product c),
      unit_price = shipment_cost',
      shipment_cost = Some shipment_cost',
      amount = shipment_cost',
      taxes = [],
      sequence = Some 9999\<rparr>"

text \<open>
  The method returns the order as it stands afterwards, or the exception it raised; it
  writes once, as its last step, so an exception leaves the order as it was.
\<close>

definition apply_endicia_shipping :: "pool \<Rightarrow> sale \<Rightarrow> exn + sale" where
  "apply_endicia_shipping P s =
     (case carrier s of
        None \<Rightarrow> Inr s
      | Some c \<Rightarrow>
          if carrier_cost_method c \<noteq> ''endicia'' then Inr s
          else (case endicia_mailclass s of
                  None \<Rightarrow> Inl MailClassMissingError
                | Some mc \<Rightarrow>
                    (case get_sale_price P c s of
                       Inl e \<Rightarrow> Inl e
                     | Inr shipment_cost_usd \<Rightarrow>
                         (case fst shipment_cost_usd of
                            None \<Rightarrow> Inr s
                          | Some cost_usd \<Rightarrow>
                              if cost_usd = 0 then Inr s
                              else (case Currency_search P ''USD'' of
                                      [usd] \<Rightarrow>
                                        (let shipment_cost' =
                                               compute P usd cost_usd (currency s)
                                         in Inr (s\<lparr>lines :=
                                              write_lines (lines s)
                                                [Create [shipping_line_values c mc shipment_cost'],
                                                 Delete (filter is_shipment_cost_line (lines s))]\<rparr>))
                                    | _ \<Rightarrow> Inl ValueError)))))"

subsection \<open>Rate shopping as the specification words it\<close>

text \<open>
  The quote of one mail class during rate shopping, and the requests that quote sends.
\<close>

definition quote :: "pool \<Rightarrow> sale \<Rightarrow> mailclass \<Rightarrow> exn + decimal" where
  "quote P s mc = fst (get_endicia_shipping_cost P s (Some (mailclass_value mc)))"

definition quote_requests :: "pool \<Rightarrow> sale \<Rightarrow> mailclass \<Rightarrow> request list" where
  "quote_requests P s mc = snd (get_endicia_shipping_cost P s (Some (mailclass_value mc)))"

text \<open>The rate option of a mail class quoted at \<open>cost\<close>, for carrier \<open>c\<close>.\<close>

definition rate_option :: "pool \<Rightarrow> carrier \<Rightarrow> currency \<Rightarrow> mailclass \<Rightarrow> decimal \<Rightarrow> rate_line" where
  "rate_option P c usd mc cost =
     (get_endicia_mailclass_name P c mc, cost, usd, [],
      [(''carrier'', carrier_id c), (''endicia_mailclass'', mailclass_id mc)])"

text \<open>
  "One rate option per mail class whose quote succeeds, in the iteration order of the
  eligible mail classes": \<open>quoted_options\<close>. The exceptions of the quotes that fail, in
  the same order: \<open>quote_failures\<close>.
\<close>

fun quoted_options ::
    "pool \<Rightarrow> sale \<Rightarrow> carrier \<Rightarrow> currency \<Rightarrow> mailclass list \<Rightarrow> rate_line list" where
  "quoted_options P s c usd [] = []"
| "quoted_options P s c usd (mc # mcs) =
     (case quote P s mc of
        Inr cost \<Rightarrow> rate_option P c usd mc cost # quoted_options P s c usd mcs
      | Inl e \<Rightarrow> quoted_options P s c usd mcs)"

fun quote_failures :: "pool \<Rightarrow> sale \<Rightarrow> mailclass list \<Rightarrow> exn list" where
  "quote_failures P s [] = []"
| "quote_failures P s (mc # mcs) =
     (case quote P s mc of
        Inl e \<Rightarrow> e # quote_failures P s mcs
      | Inr cost \<Rightarrow> quote_failures P s mcs)"

subsection \<open>An example installation\<close>

text \<open>
  Concrete data on which the theorems below are exercised: three units, a physical
  product of 1.2 oz and the service product that stands for shipping, five mail classes
  (one with an empty value, one the remote service rejects, one on which the transport
  fails), a remote service that charges 5 USD plus a quarter per ounce, and two
  currencies, of which XAU is worth 2000 USD a unit and is kept to two digits.
  \<open>ex_get_sale_price\<close> quotes the order with its selected mail class.
\<close>

definition ex_oz :: uom where
  "ex_oz = \<lparr>uom_id = 1, symbol = ''oz''\<rparr>"

definition ex_lb :: uom where
  "ex_lb = \<lparr>uom_id = 2, symbol = ''lb''\<rparr>"

definition ex_unit :: uom where
  "ex_unit = \<lparr>uom_id = 3, symbol = ''u''\<rparr>"

definition ex_compute_qty :: "uom \<Rightarrow> float \<Rightarrow> uom \<Rightarrow> float" where
  "ex_compute_qty f q t = (if symbol f = ''lb'' \<and> symbol t = ''oz'' then 16 * q else q)"

definition ex_widget :: product where
  "ex_widget = \<lparr>product_id = 1, product_name = ''Widget'', product_type = ''goods'',
      weight = Some (6 / 5), weight_uom = ex_oz, default_uom = ex_unit, sale_uom = ex_unit\<rparr>"

definition ex_shipping :: product where
  "ex_shipping = \<lparr>product_id = 2, product_name = ''Shipping'', product_type = ''service'',
      weight = None, weight_uom = ex_oz, default_uom = ex_unit, sale_uom = ex_unit\<rparr>"

definition ex_line :: "nat \<Rightarrow> product \<Rightarrow> float \<Rightarrow> decimal option \<Rightarrow> sale_line" where
  "ex_line n p q c =
     \<lparr>line_type = ''line'', product = Some p, description = product_name p,
      quantity = Some q, unit = default_uom p, unit_price = 10, shipment_cost = c,
      amount = 10 * q, taxes = [], sequence = None, line_id = n\<rparr>"

definition ex_first :: mailclass where
  "ex_first = \<lparr>mailclass_id = 1, mailclass_name = ''First-Class Mail'',
      mailclass_value = ''First''\<rparr>"

definition ex_blank :: mailclass where
  "ex_blank = \<lparr>mailclass_id = 2, mailclass_name = ''Unnamed'', mailclass_value = []\<rparr>"

definition ex_express :: mailclass where
  "ex_express = \<lparr>mailclass_id = 3, mailclass_name = ''Priority Mail Express'',
      mailclass_value = ''Express''\<rparr>"

definition ex_letter :: mailclass where
  "ex_letter = \<lparr>mailclass_id = 4, mailclass_name = ''Letter'', mailclass_value = ''Letter''\<rparr>"

definition ex_telegram :: mailclass where
  "ex_telegram = \<lparr>mailclass_id = 5, mailclass_name = ''Telegram'',
      mailclass_value = ''Telegram''\<rparr>"

definition ex_send_request :: "request \<Rightarrow> send_outcome" where
  "ex_send_request req =
     (if request_mailclass req = ''Letter'' then RequestError ''Letter is not available''
      else if request_mailclass req = ''Telegram'' then OtherFailure ''connection reset''
      else Response (Some (5 + weightoz req / 4)))"

definition ex_carrier :: carrier where
  "ex_carrier = \<lparr>carrier_id = 1, carrier_cost_method = ''endicia'',
      carrier_product = ex_shipping\<rparr>"

definition ex_usd :: currency where
  "ex_usd = \<lparr>currency_id = 1, code = ''USD''\<rparr>"

definition ex_xau :: currency where
  "ex_xau = \<lparr>currency_id = 2, code = ''XAU''\<rparr>"

definition ex_compute :: "currency \<Rightarrow> decimal \<Rightarrow> currency \<Rightarrow> decimal" where
  "ex_compute f a t =
     (if code t = ''XAU'' then of_int (round (a / 2000 * 100)) / 100 else a)"

definition ex_credentials :: credentials where
  "ex_credentials = \<lparr>account_id = 123456, requester_id = ''lxxx'',
      passphrase = ''secret'', is_test = True\<rparr>"

definition ex_mailclass_label :: "carrier \<Rightarrow> mailclass \<Rightarrow> string" where
  "ex_mailclass_label c mc = ''USPS '' @ mailclass_name mc"

definition ex_no_price :: "carrier \<Rightarrow> sale \<Rightarrow> exn + (decimal option \<times> nat)" where
  "ex_no_price c s = Inr (None, 1)"

definition ex_quote_pool :: pool where
  "ex_quote_pool =
     \<lparr>uoms = [ex_oz, ex_lb, ex_unit], compute_qty = ex_compute_qty, float_mul = (*),
      currencies = [ex_usd, ex_xau], compute = ex_compute, carriers = [ex_carrier],
      mailclasses = [ex_first, ex_blank, ex_express], endicia_credentials = ex_credentials,
      send_request = ex_send_request, get_sale_price = ex_no_price,
      get_endicia_mailclass_name = ex_mailclass_label\<rparr>"

definition ex_get_sale_price :: "carrier \<Rightarrow> sale \<Rightarrow> exn + (decimal option \<times> nat)" where
  "ex_get_sale_price c s =
     (case fst (get_endicia_shipping_cost ex_quote_pool s None) of
        Inl e \<Rightarrow> Inl e
      | Inr d \<Rightarrow> Inr (Some d, 1))"

definition ex_pool :: pool where
  "ex_pool = ex_quote_pool\<lparr>get_sale_price := ex_get_sale_price\<rparr>"

definition ex_sale :: sale where
  "ex_sale =
     \<lparr>sale_id = 1, carrier = Some ex_carrier, endicia_mailclass = Some ex_first,
      currency = ex_usd,
      lines = [ex_line 1 ex_widget 1 None, ex_line 2 ex_shipping 1 (Some 3)],
      shipment_address = \<lparr>address_zip = ''94105-1234'', country_code = ''US''\<rparr>,
      warehouse_address = \<lparr>address_zip = ''10001'', country_code = ''US''\<rparr>\<rparr>"

text \<open>The request the example orders send for mail class value \<open>v\<close> and weight \<open>w\<close>.\<close>

definition ex_request :: "string \<Rightarrow> decimal \<Rightarrow> request" where
  "ex_request v w =
     \<lparr>request_mailclass = v, weightoz = w, from_postal_code = ''10001'',
      to_postal_code = ''94105'', to_country_code = ''US'', accountid = 123456,
      requesterid = ''lxxx'', request_passphrase = ''secret'', test = True\<rparr>"

text \<open>A product like the widget, but of negative weight.\<close>

definition ex_balloon :: product where
  "ex_balloon = ex_widget\<lparr>product_name := ''Balloon'', weight := Some (- 3 / 2)\<rparr>"

text \<open>The example pool with other mail classes, and a carrier price of zero.\<close>

definition ex_pool_of :: "mailclass list \<Rightarrow> pool" where
  "ex_pool_of ms = ex_pool\<lparr>mailclasses := ms\<rparr>"

definition ex_zero_price :: "carrier \<Rightarrow> sale \<Rightarrow> exn + (decimal option \<times> nat)" where
  "ex_zero_price c s = Inr (Some 0, 1)"

section \<open>The example evaluated\<close>

lemma ex_ceiling: "\<lceil>6 / 5 :: rat\<rceil> = 2" "\<lceil>- (3 / 2) :: rat\<rceil> = - 1"
  by (simp_all add: ceiling_eq_iff)

lemma ex_weight_in_ounces:
  assumes "float_mul P = (*)"
  shows "weight_in_ounces P (ex_line n ex_widget 1 c) ex_widget (6 / 5) 1 = Inr (6 / 5)"
    and "weight_in_ounces P (ex_line n ex_balloon 1 c) ex_balloon (- 3 / 2) 1 = Inr (- 3 / 2)"
  using assms
  by (simp_all add: weight_in_ounces_def ex_line_def ex_widget_def ex_balloon_def ex_oz_def)

lemma ex_weight_widget:
  assumes "float_mul P = (*)"
  shows "get_weight_for_endicia P (ex_line n ex_widget 1 c) = Inr 2"
proof -
  have "product (ex_line n ex_widget 1 c) = Some ex_widget"
       "quantity (ex_line n ex_widget 1 c) = Some 1"
    by (simp_all add: ex_line_def)
  moreover have "product_type ex_widget \<noteq> ''service''" "weight ex_widget = Some (6 / 5)"
    by (simp_all add: ex_widget_def)
  ultimately show ?thesis
    using ex_weight_in_ounces(1) [OF assms, of n c]
    by (simp add: get_weight_for_endicia_def ex_ceiling)
qed

lemma ex_weight_service:
  assumes "product l = Some p" and "product_type p = ''service''"
  shows "get_weight_for_endicia P l = Inr 0"
  using assms by (simp add: get_weight_for_endicia_def)

lemma ex_weight_shipping: "get_weight_for_endicia P (ex_line n ex_shipping q c) = Inr 0"
  by (rule ex_weight_service [of _ ex_shipping]) (simp_all add: ex_line_def ex_shipping_def)

lemma ex_weight_created:
  "get_weight_for_endicia P (create_line n (shipping_line_values ex_carrier mc cost)) = Inr 0"
  by (rule ex_weight_service [of _ ex_shipping])
     (simp_all add: create_line_def shipping_line_values_def ex_carrier_def ex_shipping_def)

lemma ex_float_mul: "float_mul ex_pool = (*)" "float_mul ex_quote_pool = (*)"
  by (simp_all add: ex_pool_def ex_quote_pool_def)

lemma ex_weights:
  assumes "float_mul P = (*)"
  shows "weights P (lines ex_sale) = Inr [2, 0]"
  by (simp add: ex_sale_def ex_weight_widget [OF assms] ex_weight_shipping)

lemma ex_calculate_postage_request:
  assumes "endicia_credentials P = ex_credentials"
      and "shipment_address s = shipment_address ex_sale"
      and "warehouse_address s = warehouse_address ex_sale"
  shows "calculate_postage_request P s v ws = ex_request v (sum_list ws)"
  using assms
  by (simp add: calculate_postage_request_def get_ship_from_address_def ex_request_def
      ex_sale_def ex_credentials_def)

lemma ex_send_request:
  "ex_send_request (ex_request ''First'' w) = Response (Some (5 + w / 4))"
  "ex_send_request (ex_request ''Express'' w) = Response (Some (5 + w / 4))"
  "ex_send_request (ex_request ''Letter'' w) = RequestError ''Letter is not available''"
  "ex_send_request (ex_request ''Telegram'' w) = OtherFailure ''connection reset''"
  by (simp_all add: ex_send_request_def ex_request_def)

text \<open>
  The quotes of an order that has the addresses of the example and lines that weigh 2
  oz, on a pool with the service and the credentials of the example.
\<close>

lemma ex_quote:
  assumes "send_request P = ex_send_request"
      and "endicia_credentials P = ex_credentials"
      and "shipment_address s = shipment_address ex_sale"
      and "warehouse_address s = warehouse_address ex_sale"
      and "weights P (lines s) = Inr [2, 0]"
  shows "endicia_mailclass s = Some ex_first \<Longrightarrow>
           get_endicia_shipping_cost P s None = (Inr (11 / 2), [ex_request ''First'' 2])"
    and "get_endicia_shipping_cost P s (Some ''First'')
           = (Inr (11 / 2), [ex_request ''First'' 2])"
    and "get_endicia_shipping_cost P s (Some ''Express'')
           = (Inr (11 / 2), [ex_request ''Express'' 2])"
    and "get_endicia_shipping_cost P s (Some ''Letter'')
           = (Inl (CarrierRequestError ''Letter is not available''), [ex_request ''Letter'' 2])"
    and "get_endicia_shipping_cost P s (Some ''Telegram'')
           = (Inl (OtherException ''connection reset''), [ex_request ''Telegram'' 2])"
    and "endicia_mailclass s = None \<Longrightarrow>
           get_endicia_shipping_cost P s (Some []) = (Inl MailClassMissingError, [])"
  using assms(1,5)
  by (simp_all add: get_endicia_shipping_cost_def mailclass_or_selected_def
      ex_calculate_postage_request [OF assms(2,3,4)] ex_send_request ex_first_def)

lemma ex_pool_fields:
  "send_request ex_pool = ex_send_request" "endicia_credentials ex_pool = ex_credentials"
  "send_request ex_quote_pool = ex_send_request"
  "endicia_credentials ex_quote_pool = ex_credentials"
  "get_sale_price ex_pool = ex_get_sale_price" "get_sale_price ex_quote_pool = ex_no_price"
  "compute ex_pool = ex_compute"
  "get_endicia_mailclass_name ex_pool = ex_mailclass_label"
  "mailclasses ex_pool = [ex_first, ex_blank, ex_express]"
  by (simp_all add: ex_pool_def ex_quote_pool_def)

lemma ex_searches:
  "Currency_search ex_pool ''USD'' = [ex_usd]"
  "Currency_search ex_quote_pool ''USD'' = [ex_usd]"
  "Carrier_search ex_pool ''endicia'' = [ex_carrier]"
  by (simp_all add: Currency_search_def Carrier_search_def ex_pool_def ex_quote_pool_def
      ex_usd_def ex_xau_def ex_carrier_def)

section \<open>Properties\<close>

subsection \<open>The weight of a line\<close>

text \<open>
  C4. A line without a product, with a service product, or with a quantity that is not
  positive (or absent) weighs 0, whatever else the line, its product and the pool hold;
  no exception is raised, not even when the product has no weight.
\<close>

theorem get_weight_for_endicia_zero:
  assumes "product l = None
         \<or> (\<exists>p. product l = Some p \<and> product_type p = ''service'')
         \<or> quantity l = None \<or> (\<exists>q. quantity l = Some q \<and> q \<le> 0)"
  shows "get_weight_for_endicia P l = Inr 0"
  using assms by (auto simp: get_weight_for_endicia_def split: option.splits)

text \<open>
  C6. For a physical product and a positive quantity: a weight that is unset or zero
  raises the missing-weight error, whose message is the text of
  \<^verbatim>\<open>weight_required\<close> with the product's name; a non-zero weight never raises it.
\<close>

theorem get_weight_for_endicia_missing_weight:
  assumes "product l = Some p" and "product_type p \<noteq> ''service''"
      and "quantity l = Some q" and "0 < q"
  shows "(weight p = None \<or> weight p = Some 0 \<longrightarrow>
            get_weight_for_endicia P l = Inl (MissingWeightError (product_name p))
          \<and> error_message (MissingWeightError (product_name p))
              = Some (''Weight is missing on the product '' @ product_name p))
       \<and> (\<forall>w. weight p = Some w \<and> w \<noteq> 0 \<longrightarrow>
            (\<forall>n. get_weight_for_endicia P l \<noteq> Inl (MissingWeightError n)))"
  using assms
  by (auto simp: get_weight_for_endicia_def weight_in_ounces_def weight_required_def Let_def
           split: option.splits sum.splits list.splits if_splits)

text \<open>
  C5, as amended. For a physical product, a positive quantity and a non-zero weight,
  and when the ounce is found (the weight is in ounces already, or the search for the
  unit of symbol oz gives exactly one), the method returns the ceiling of the raw weight
  in ounces: a whole number, not below the raw weight and less than one above it. The
  result is non-negative exactly when the raw weight is above -1.
\<close>

theorem get_weight_for_endicia_ceiling:
  assumes "product l = Some p" and "product_type p \<noteq> ''service''"
      and "quantity l = Some q" and "0 < q"
      and "weight p = Some w" and "w \<noteq> 0"
      and "symbol (weight_uom p) = ''oz'' \<or> (\<exists>ounce. ProductUom_search P ''oz'' = [ounce])"
  shows "\<exists>oz d. weight_in_ounces P l p w q = Inr oz
             \<and> get_weight_for_endicia P l = Inr d
             \<and> d = of_int \<lceil>oz\<rceil> \<and> oz \<le> d \<and> d < oz + 1
             \<and> (0 \<le> d \<longleftrightarrow> - 1 < oz)"
proof -
  have "\<exists>oz. weight_in_ounces P l p w q = Inr oz"
    using assms(7) by (auto simp: weight_in_ounces_def Let_def)
  then obtain oz where oz: "weight_in_ounces P l p w q = Inr oz" ..
  have d: "get_weight_for_endicia P l = Inr (of_int \<lceil>oz\<rceil>)"
    using assms(1-6) oz by (simp add: get_weight_for_endicia_def)
  have "oz \<le> of_int \<lceil>oz\<rceil>" by (rule le_of_int_ceiling)
  moreover have "of_int \<lceil>oz\<rceil> < oz + 1" using ceiling_correct [of oz] by linarith
  moreover have "(0 \<le> (of_int \<lceil>oz\<rceil> :: rat)) \<longleftrightarrow> - 1 < oz"
  proof -
    have "(0 \<le> (of_int \<lceil>oz\<rceil> :: rat)) \<longleftrightarrow> 0 \<le> \<lceil>oz\<rceil>" by simp
    also have "\<dots> \<longleftrightarrow> - 1 < oz" by (rule zero_le_ceiling)
    finally show ?thesis .
  qed
  ultimately show ?thesis using oz d by blast
qed

theorem get_weight_for_endicia_zero_witness:
  "product (ex_line 1 ex_shipping 3 None) = Some ex_shipping
   \<and> product_type ex_shipping = ''service'' \<and> weight ex_shipping = None
   \<and> get_weight_for_endicia ex_pool (ex_line 1 ex_shipping 3 None) = Inr 0
   \<and> quantity (ex_line 2 ex_widget 0 None) = Some 0
   \<and> get_weight_for_endicia ex_pool (ex_line 2 ex_widget 0 None) = Inr 0"
proof -
  have a: "product (ex_line 1 ex_shipping 3 None) = Some ex_shipping
      \<and> product_type ex_shipping = ''service''"
    by (simp add: ex_line_def ex_shipping_def)
  have b: "quantity (ex_line 2 ex_widget 0 None) = Some 0 \<and> (0::rat) \<le> 0"
    by (simp add: ex_line_def)
  have "get_weight_for_endicia ex_pool (ex_line 1 ex_shipping 3 None) = Inr 0"
    using a by (intro get_weight_for_endicia_zero) blast
  moreover have "get_weight_for_endicia ex_pool (ex_line 2 ex_widget 0 None) = Inr 0"
    using b by (intro get_weight_for_endicia_zero) blast
  moreover have "weight ex_shipping = None" by (simp add: ex_shipping_def)
  ultimately show ?thesis using a b by simp
qed

theorem get_weight_for_endicia_ceiling_witness:
  "product (ex_line 1 ex_widget 1 None) = Some ex_widget
   \<and> product_type ex_widget \<noteq> ''service''
   \<and> quantity (ex_line 1 ex_widget 1 None) = Some 1 \<and> (0::rat) < 1
   \<and> weight ex_widget = Some (6 / 5) \<and> (6 / 5 :: rat) \<noteq> 0
   \<and> symbol (weight_uom ex_widget) = ''oz''
   \<and> weight_in_ounces ex_pool (ex_line 1 ex_widget 1 None) ex_widget (6 / 5) 1 = Inr (6 / 5)
   \<and> get_weight_for_endicia ex_pool (ex_line 1 ex_widget 1 None) = Inr 2"
proof -
  have h: "product (ex_line 1 ex_widget 1 None) = Some ex_widget"
    "product_type ex_widget \<noteq> ''service''"
    "quantity (ex_line 1 ex_widget 1 None) = Some 1" "(0::rat) < 1"
    "weight ex_widget = Some (6 / 5)" "(6 / 5 :: rat) \<noteq> 0"
    by (simp_all add: ex_line_def ex_widget_def)
  have oz: "symbol (weight_uom ex_widget) = ''oz''"
    by (simp add: ex_widget_def ex_oz_def)
  then have h7: "symbol (weight_uom ex_widget) = ''oz''
      \<or> (\<exists>ounce. ProductUom_search ex_pool ''oz'' = [ounce])" ..
  from get_weight_for_endicia_ceiling [OF h h7]
  obtain w d where a: "weight_in_ounces ex_pool (ex_line 1 ex_widget 1 None) ex_widget (6 / 5) 1
      = Inr w"
    and b: "get_weight_for_endicia ex_pool (ex_line 1 ex_widget 1 None) = Inr d"
    and c: "d = of_int \<lceil>w\<rceil>"
    by blast
  have e: "weight_in_ounces ex_pool (ex_line 1 ex_widget 1 None) ex_widget (6 / 5) 1
      = Inr (6 / 5)"
    by (rule ex_weight_in_ounces(1) [OF ex_float_mul(1)])
  have "Inr w = (Inr (6 / 5) :: exn + rat)" using a e by (rule trans [OF sym])
  then have "w = 6 / 5" by (rule Inr_inject)
  then have "d = 2" using c by (simp only: ex_ceiling(1) of_int_numeral)
  then have "get_weight_for_endicia ex_pool (ex_line 1 ex_widget 1 None) = Inr 2"
    using b by simp
  then show ?thesis using h oz e by simp
qed

text \<open>
  A product whose weight is negative passes every check of the method, and the result
  is negative: -1.5 oz gives -1.
\<close>

theorem get_weight_for_endicia_negative:
  "product (ex_line 1 ex_balloon 1 None) = Some ex_balloon
   \<and> product_type ex_balloon \<noteq> ''service''
   \<and> quantity (ex_line 1 ex_balloon 1 None) = Some 1 \<and> (0::rat) < 1
   \<and> weight ex_balloon = Some (- 3 / 2) \<and> (- 3 / 2 :: rat) \<noteq> 0
   \<and> get_weight_for_endicia ex_pool (ex_line 1 ex_balloon 1 None) = Inr (- 1)
   \<and> \<not> (0::rat) \<le> - 1"
proof -
  have h: "product (ex_line 1 ex_balloon 1 None) = Some ex_balloon"
    "product_type ex_balloon \<noteq> ''service''"
    "quantity (ex_line 1 ex_balloon 1 None) = Some 1"
    "weight ex_balloon = Some (- 3 / 2)"
    by (simp_all add: ex_line_def ex_balloon_def ex_widget_def)
  then have "get_weight_for_endicia ex_pool (ex_line 1 ex_balloon 1 None) = Inr (- 1)"
    using ex_weight_in_ounces(2) [OF ex_float_mul(1), of 1 None]
    by (simp add: get_weight_for_endicia_def ex_ceiling)
  with h show ?thesis by simp
qed

theorem get_weight_for_endicia_missing_weight_witness:
  "product (ex_line 1 (ex_widget\<lparr>weight := None\<rparr>) 2 None) = Some (ex_widget\<lparr>weight := None\<rparr>)
   \<and> product_type (ex_widget\<lparr>weight := None\<rparr>) \<noteq> ''service''
   \<and> quantity (ex_line 1 (ex_widget\<lparr>weight := None\<rparr>) 2 None) = Some 2 \<and> (0::rat) < 2
   \<and> weight (ex_widget\<lparr>weight := None\<rparr>) = None
   \<and> get_weight_for_endicia ex_pool (ex_line 1 (ex_widget\<lparr>weight := None\<rparr>) 2 None)
       = Inl (MissingWeightError ''Widget'')
   \<and> error_message (MissingWeightError ''Widget'')
       = Some ''Weight is missing on the product Widget''
   \<and> product (ex_line 1 ex_widget 1 None) = Some ex_widget
   \<and> quantity (ex_line 1 ex_widget 1 None) = Some 1 \<and> (0::rat) < 1
   \<and> weight ex_widget = Some (6 / 5) \<and> (6 / 5 :: rat) \<noteq> 0
   \<and> get_weight_for_endicia ex_pool (ex_line 1 ex_widget 1 None)
       \<noteq> Inl (MissingWeightError ''Widget'')"
proof -
  let ?p = "ex_widget\<lparr>weight := None\<rparr>"
  have h: "product (ex_line 1 ?p 2 None) = Some ?p" "product_type ?p \<noteq> ''service''"
    "quantity (ex_line 1 ?p 2 None) = Some 2" "(0::rat) < 2"
    by (simp_all add: ex_line_def ex_widget_def)
  have n: "weight ?p = None" "product_name ?p = ''Widget''" by (simp_all add: ex_widget_def)
  have g: "product (ex_line 1 ex_widget 1 None) = Some ex_widget"
    "product_type ex_widget \<noteq> ''service''"
    "quantity (ex_line 1 ex_widget 1 None) = Some 1" "(0::rat) < 1"
    by (simp_all add: ex_line_def ex_widget_def)
  have w: "weight ex_widget = Some (6 / 5)" "(6 / 5 :: rat) \<noteq> 0" by (simp_all add: ex_widget_def)
  from get_weight_for_endicia_missing_weight [OF h, of ex_pool] n
  have 1: "get_weight_for_endicia ex_pool (ex_line 1 ?p 2 None)
       = Inl (MissingWeightError ''Widget'')
     \<and> error_message (MissingWeightError ''Widget'')
       = Some ''Weight is missing on the product Widget''"
    by simp
  from get_weight_for_endicia_missing_weight [OF g, of ex_pool] w
  have 2: "get_weight_for_endicia ex_pool (ex_line 1 ex_widget 1 None)
       \<noteq> Inl (MissingWeightError ''Widget'')"
    by blast
  from 1 2 h n g w show ?thesis by simp
qed

subsection \<open>The quote of an order\<close>

lemma get_weight_not_mailclass_missing:
  "get_weight_for_endicia P l \<noteq> Inl MailClassMissingError"
  by (auto simp: get_weight_for_endicia_def weight_in_ounces_def Let_def
           split: option.splits sum.splits list.splits if_splits)

lemma weights_not_mailclass_missing:
  "weights P ls \<noteq> Inl MailClassMissingError"
  by (induction ls) (auto simp: get_weight_not_mailclass_missing split: sum.splits)

text \<open>
  C7. The quote fails with the mail-class-missing error exactly when the mail class
  argument is absent (or empty, which Python takes for absent) and the order has no mail
  class selected.
\<close>

theorem get_endicia_shipping_cost_mailclass_missing:
  "fst (get_endicia_shipping_cost P s mailclass) = Inl MailClassMissingError
     \<longleftrightarrow> \<not> truthy_str mailclass \<and> endicia_mailclass s = None"
  using weights_not_mailclass_missing [of P "lines s"]
  by (auto simp: get_endicia_shipping_cost_def mailclass_or_selected_def Let_def
           split: sum.splits send_outcome.splits option.splits)

text \<open>
  C9. Once the mail class is resolved and the lines are weighed, the request is sent
  once. If the service reports an error, the quote fails with the carrier request error,
  a user error that carries the service's message, and that one request is all that was
  sent; if the service answers with a total amount, the quote is that amount.
\<close>

theorem get_endicia_shipping_cost_single_attempt:
  assumes "mailclass_or_selected s mailclass = Inr mc"
      and "weights P (lines s) = Inr ws"
      and "req = calculate_postage_request P s mc ws"
  shows "(\<forall>m. send_request P req = RequestError m \<longrightarrow>
            get_endicia_shipping_cost P s mailclass = (Inl (CarrierRequestError m), [req])
          \<and> is_UserError (CarrierRequestError m))
       \<and> (\<forall>d. send_request P req = Response (Some d) \<longrightarrow>
            get_endicia_shipping_cost P s mailclass = (Inr d, [req]))"
  using assms
  by (auto simp: get_endicia_shipping_cost_def mailclass_or_selected_def Let_def
           split: if_splits option.splits)

theorem get_endicia_shipping_cost_mailclass_missing_witness:
  "fst (get_endicia_shipping_cost ex_pool (ex_sale\<lparr>endicia_mailclass := None\<rparr>) None)
     = Inl MailClassMissingError
   \<and> fst (get_endicia_shipping_cost ex_pool ex_sale None) \<noteq> Inl MailClassMissingError
   \<and> fst (get_endicia_shipping_cost ex_pool (ex_sale\<lparr>endicia_mailclass := None\<rparr>)
            (Some ''First'')) \<noteq> Inl MailClassMissingError"
  using get_endicia_shipping_cost_mailclass_missing
          [of ex_pool "ex_sale\<lparr>endicia_mailclass := None\<rparr>" None]
        get_endicia_shipping_cost_mailclass_missing [of ex_pool ex_sale None]
        get_endicia_shipping_cost_mailclass_missing
          [of ex_pool "ex_sale\<lparr>endicia_mailclass := None\<rparr>" "Some ''First''"]
  by (simp add: ex_sale_def)

theorem get_endicia_shipping_cost_single_attempt_witness:
  "mailclass_or_selected ex_sale (Some ''Letter'') = Inr ''Letter''
   \<and> weights ex_pool (lines ex_sale) = Inr [2, 0]
   \<and> ex_request ''Letter'' 2 = calculate_postage_request ex_pool ex_sale ''Letter'' [2, 0]
   \<and> send_request ex_pool (ex_request ''Letter'' 2) = RequestError ''Letter is not available''
   \<and> get_endicia_shipping_cost ex_pool ex_sale (Some ''Letter'')
       = (Inl (CarrierRequestError ''Letter is not available''), [ex_request ''Letter'' 2])
   \<and> mailclass_or_selected ex_sale None = Inr ''First''
   \<and> ex_request ''First'' 2 = calculate_postage_request ex_pool ex_sale ''First'' [2, 0]
   \<and> send_request ex_pool (ex_request ''First'' 2) = Response (Some (11 / 2))
   \<and> get_endicia_shipping_cost ex_pool ex_sale None = (Inr (11 / 2), [ex_request ''First'' 2])"
proof -
  have m: "mailclass_or_selected ex_sale (Some ''Letter'') = Inr ''Letter''"
    "mailclass_or_selected ex_sale None = Inr ''First''"
    by (simp_all add: mailclass_or_selected_def ex_sale_def ex_first_def)
  have w: "weights ex_pool (lines ex_sale) = Inr [2, 0]"
    by (rule ex_weights [OF ex_float_mul(1)])
  have r: "ex_request ''Letter'' 2 = calculate_postage_request ex_pool ex_sale ''Letter'' [2, 0]"
    "ex_request ''First'' 2 = calculate_postage_request ex_pool ex_sale ''First'' [2, 0]"
    by (simp_all add: ex_calculate_postage_request ex_pool_fields)
  have s: "send_request ex_pool (ex_request ''Letter'' 2) = RequestError ''Letter is not available''"
    "send_request ex_pool (ex_request ''First'' 2) = Response (Some (11 / 2))"
    by (simp_all add: ex_pool_fields ex_send_request)
  from get_endicia_shipping_cost_single_attempt [OF m(1) w r(1)] s(1)
  have 1: "get_endicia_shipping_cost ex_pool ex_sale (Some ''Letter'')
       = (Inl (CarrierRequestError ''Letter is not available''), [ex_request ''Letter'' 2])"
    by blast
  from get_endicia_shipping_cost_single_attempt [OF m(2) w r(2)] s(2)
  have 2: "get_endicia_shipping_cost ex_pool ex_sale None
       = (Inr (11 / 2), [ex_request ''First'' 2])"
    by blast
  from m w r s 1 2 show ?thesis by simp
qed

subsection \<open>Rate shopping\<close>

text \<open>
  C10. Unless the search finds exactly one carrier of cost method endicia, rate shopping
  raises the unpacking error before any request is sent, whatever \<open>silent\<close> is; the
  error is no user error.
\<close>

theorem get_endicia_shipping_rates_one_carrier:
  assumes "length (Carrier_search P ''endicia'') \<noteq> 1"
  shows "get_endicia_shipping_rates P s silent = (Inl ValueError, [])
       \<and> \<not> is_UserError ValueError"
  using assms by (auto simp: get_endicia_shipping_rates_def split: list.splits)

lemma make_endicia_rate_line_usd:
  "Currency_search P ''USD'' = [usd] \<Longrightarrow>
   make_endicia_rate_line P c mc cost = Inr (rate_option P c usd mc cost)"
  by (simp add: make_endicia_rate_line_def rate_option_def)

lemma rates_loop_result:
  assumes "Currency_search P ''USD'' = [usd]"
  shows "fst (rates_loop P s silent c mcs acc) =
     (case filter (\<lambda>e. \<not> silent \<or> \<not> is_UserError e) (quote_failures P s mcs) of
        [] \<Rightarrow> Inr (acc @ quoted_options P s c usd mcs)
      | e # es \<Rightarrow> Inl e)"
proof (induction mcs arbitrary: acc)
  case Nil
  show ?case by simp
next
  case (Cons mc mcs)
  obtain r sent where q: "get_endicia_shipping_cost P s (Some (mailclass_value mc)) = (r, sent)"
    by (cases "get_endicia_shipping_cost P s (Some (mailclass_value mc))")
  show ?case
  proof (cases r)
    case (Inl e)
    then show ?thesis
      using q Cons.IH [of acc]
      by (auto simp: quote_def split: prod.splits list.splits)
  next
    case (Inr cost)
    then show ?thesis
      using q Cons.IH [of "acc @ [rate_option P c usd mc cost]"]
        make_endicia_rate_line_usd [OF assms, of c mc cost]
      by (auto simp: quote_def split: prod.splits list.splits)
  qed
qed

lemma rates_loop_prefix:
  assumes "Currency_search P ''USD'' = [usd]"
      and "\<forall>e \<in> set (quote_failures P s pre). is_UserError e"
  shows "rates_loop P s True c (pre @ rest) acc =
     (case rates_loop P s True c rest (acc @ quoted_options P s c usd pre) of
        (r, sent) \<Rightarrow> (r, concat (map (quote_requests P s) pre) @ sent))"
  using assms(2)
proof (induction pre arbitrary: acc)
  case Nil
  show ?case by simp
next
  case (Cons mc pre)
  obtain r sent where q: "get_endicia_shipping_cost P s (Some (mailclass_value mc)) = (r, sent)"
    by (cases "get_endicia_shipping_cost P s (Some (mailclass_value mc))")
  show ?case
  proof (cases r)
    case (Inl e)
    then show ?thesis
      using q Cons.IH [of acc] Cons.prems
      by (auto simp: quote_def quote_requests_def split: prod.splits)
  next
    case (Inr cost)
    then show ?thesis
      using q Cons.IH [of "acc @ [rate_option P c usd mc cost]"] Cons.prems
        make_endicia_rate_line_usd [OF assms(1), of c mc cost]
      by (auto simp: quote_def quote_requests_def split: prod.splits)
  qed
qed

lemma fst_get_endicia_shipping_rates:
  assumes "Carrier_search P ''endicia'' = [c]"
  shows "fst (get_endicia_shipping_rates P s silent)
       = fst (rates_loop P s silent c (get_endicia_mail_classes P s) [])"
  using assms
  by (auto simp: get_endicia_shipping_rates_def truthy_rate_line_def split: prod.splits sum.splits)

text \<open>
  C3. With exactly one endicia carrier and one USD currency: when every quote that fails
  fails with a user error, rate shopping with \<open>silent\<close> true returns the rate options of
  the mail classes whose quote succeeds, in their order; with \<open>silent\<close> false it returns
  them only if no quote fails, and otherwise raises the first failure.
\<close>

theorem get_endicia_shipping_rates_options:
  assumes "Carrier_search P ''endicia'' = [c]"
      and "Currency_search P ''USD'' = [usd]"
  shows "((\<forall>e \<in> set (quote_failures P s (get_endicia_mail_classes P s)). is_UserError e) \<longrightarrow>
            fst (get_endicia_shipping_rates P s True)
              = Inr (quoted_options P s c usd (get_endicia_mail_classes P s)))
       \<and> fst (get_endicia_shipping_rates P s False)
           = (case quote_failures P s (get_endicia_mail_classes P s) of
                [] \<Rightarrow> Inr (quoted_options P s c usd (get_endicia_mail_classes P s))
              | e # es \<Rightarrow> Inl e)"
proof -
  have t: "fst (get_endicia_shipping_rates P s True)
      = (case filter (\<lambda>e. \<not> is_UserError e) (quote_failures P s (get_endicia_mail_classes P s)) of
           [] \<Rightarrow> Inr (quoted_options P s c usd (get_endicia_mail_classes P s))
         | e # es \<Rightarrow> Inl e)"
    using rates_loop_result [OF assms(2), of s True c "get_endicia_mail_classes P s" "[]"]
    by (simp add: fst_get_endicia_shipping_rates [OF assms(1)] split: list.splits)
  have f: "fst (get_endicia_shipping_rates P s False)
      = (case quote_failures P s (get_endicia_mail_classes P s) of
           [] \<Rightarrow> Inr (quoted_options P s c usd (get_endicia_mail_classes P s))
         | e # es \<Rightarrow> Inl e)"
    using rates_loop_result [OF assms(2), of s False c "get_endicia_mail_classes P s" "[]"]
    by (simp add: fst_get_endicia_shipping_rates [OF assms(1)] split: list.splits)
  have "filter (\<lambda>e. \<not> is_UserError e) (quote_failures P s (get_endicia_mail_classes P s)) = []"
    if "\<forall>e \<in> set (quote_failures P s (get_endicia_mail_classes P s)). is_UserError e"
    using that by (simp add: filter_empty_conv)
  with t f show ?thesis by simp
qed

text \<open>
  C2, as amended. With exactly one endicia carrier and one USD currency, rate shopping
  with \<open>silent\<close> true raises the first failure that is not a user error and returns the
  options of the successful quotes if there is none: every user error is skipped, and the
  mail-class-missing, missing-weight and carrier request errors are all user errors. A
  failure that is not a user error ends the call at once: the requests sent are those of
  the mail classes before it and its own.
\<close>

theorem get_endicia_shipping_rates_silent:
  assumes "Carrier_search P ''endicia'' = [c]"
      and "Currency_search P ''USD'' = [usd]"
  shows "fst (get_endicia_shipping_rates P s True)
           = (case filter (\<lambda>e. \<not> is_UserError e)
                     (quote_failures P s (get_endicia_mail_classes P s)) of
                [] \<Rightarrow> Inr (quoted_options P s c usd (get_endicia_mail_classes P s))
              | e # es \<Rightarrow> Inl e)
       \<and> (\<forall>pre mc post e sent.
            get_endicia_mail_classes P s = pre @ mc # post
            \<and> (\<forall>e' \<in> set (quote_failures P s pre). is_UserError e')
            \<and> get_endicia_shipping_cost P s (Some (mailclass_value mc)) = (Inl e, sent)
            \<and> \<not> is_UserError e
            \<longrightarrow> get_endicia_shipping_rates P s True
                  = (Inl e, concat (map (quote_requests P s) pre) @ sent))
       \<and> (\<forall>n m. is_UserError MailClassMissingError \<and> is_UserError (MissingWeightError n)
                \<and> is_UserError (CarrierRequestError m))"
proof -
  have t: "fst (get_endicia_shipping_rates P s True)
      = (case filter (\<lambda>e. \<not> is_UserError e) (quote_failures P s (get_endicia_mail_classes P s)) of
           [] \<Rightarrow> Inr (quoted_options P s c usd (get_endicia_mail_classes P s))
         | e # es \<Rightarrow> Inl e)"
    using rates_loop_result [OF assms(2), of s True c "get_endicia_mail_classes P s" "[]"]
    by (simp add: fst_get_endicia_shipping_rates [OF assms(1)] split: list.splits)
  have p: "get_endicia_shipping_rates P s True
             = (Inl e, concat (map (quote_requests P s) pre) @ sent)"
    if mcs: "get_endicia_mail_classes P s = pre @ mc # post"
      and pre: "\<forall>e' \<in> set (quote_failures P s pre). is_UserError e'"
      and q: "get_endicia_shipping_cost P s (Some (mailclass_value mc)) = (Inl e, sent)"
      and e: "\<not> is_UserError e"
    for pre mc post e sent
  proof -
    have "rates_loop P s True c (mc # post) (quoted_options P s c usd pre) = (Inl e, sent)"
      using q e by simp
    then have "rates_loop P s True c (pre @ mc # post) []
                = (Inl e, concat (map (quote_requests P s) pre) @ sent)"
      using rates_loop_prefix [OF assms(2) pre, of c "mc # post" "[]"] by simp
    then show ?thesis
      using assms(1) mcs by (simp add: get_endicia_shipping_rates_def)
  qed
  show ?thesis using t p by simp
qed

lemma ex_pool_of_fields:
  "send_request (ex_pool_of ms) = ex_send_request"
  "endicia_credentials (ex_pool_of ms) = ex_credentials"
  "float_mul (ex_pool_of ms) = (*)"
  "get_endicia_mailclass_name (ex_pool_of ms) = ex_mailclass_label"
  "mailclasses (ex_pool_of ms) = ms"
  "Currency_search (ex_pool_of ms) ''USD'' = [ex_usd]"
  "Carrier_search (ex_pool_of ms) ''endicia'' = [ex_carrier]"
  by (simp_all add: ex_pool_of_def ex_pool_def ex_quote_pool_def Currency_search_def
      Carrier_search_def ex_usd_def ex_xau_def ex_carrier_def)

lemma ex_mailclass_values:
  "mailclass_value ex_first = ''First''" "mailclass_value ex_blank = []"
  "mailclass_value ex_express = ''Express''" "mailclass_value ex_letter = ''Letter''"
  "mailclass_value ex_telegram = ''Telegram''"
  by (simp_all add: ex_first_def ex_blank_def ex_express_def ex_letter_def ex_telegram_def)

lemma ex_rate_options:
  assumes "get_endicia_mailclass_name P = ex_mailclass_label"
  shows "rate_option P ex_carrier ex_usd ex_first cost
           = (''USPS First-Class Mail'', cost, ex_usd, [],
              [(''carrier'', 1), (''endicia_mailclass'', 1)])"
    and "rate_option P ex_carrier ex_usd ex_express cost
           = (''USPS Priority Mail Express'', cost, ex_usd, [],
              [(''carrier'', 1), (''endicia_mailclass'', 3)])"
  using assms
  by (simp_all add: rate_option_def ex_mailclass_label_def ex_first_def ex_express_def
      ex_carrier_def)

text \<open>The example order without a selected mail class, quoted on the example pool.\<close>

lemma ex_unselected:
  "quote ex_pool (ex_sale\<lparr>endicia_mailclass := None\<rparr>) ex_first = Inr (11 / 2)"
  "quote ex_pool (ex_sale\<lparr>endicia_mailclass := None\<rparr>) ex_blank = Inl MailClassMissingError"
  "quote ex_pool (ex_sale\<lparr>endicia_mailclass := None\<rparr>) ex_express = Inr (11 / 2)"
proof -
  let ?s = "ex_sale\<lparr>endicia_mailclass := None\<rparr>"
  have w: "weights ex_pool (lines ?s) = Inr [2, 0]"
    using ex_weights [OF ex_float_mul(1)] by simp
  have a: "shipment_address ?s = shipment_address ex_sale"
    "warehouse_address ?s = warehouse_address ex_sale" "endicia_mailclass ?s = None"
    by simp_all
  note q = ex_quote [OF ex_pool_fields(1,2) a(1,2) w]
  show "quote ex_pool ?s ex_first = Inr (11 / 2)"
    by (simp only: quote_def ex_mailclass_values q(2) fst_conv)
  show "quote ex_pool ?s ex_express = Inr (11 / 2)"
    by (simp only: quote_def ex_mailclass_values q(3) fst_conv)
  show "quote ex_pool ?s ex_blank = Inl MailClassMissingError"
    by (simp only: quote_def ex_mailclass_values q(6) [OF a(3)] fst_conv)
qed

text \<open>The example order quoted on a pool with other mail classes.\<close>

lemma ex_selected:
  "get_endicia_shipping_cost (ex_pool_of ms) ex_sale (Some (mailclass_value ex_first))
     = (Inr (11 / 2), [ex_request ''First'' 2])"
  "get_endicia_shipping_cost (ex_pool_of ms) ex_sale (Some (mailclass_value ex_express))
     = (Inr (11 / 2), [ex_request ''Express'' 2])"
  "get_endicia_shipping_cost (ex_pool_of ms) ex_sale (Some (mailclass_value ex_letter))
     = (Inl (CarrierRequestError ''Letter is not available''), [ex_request ''Letter'' 2])"
  "get_endicia_shipping_cost (ex_pool_of ms) ex_sale (Some (mailclass_value ex_telegram))
     = (Inl (OtherException ''connection reset''), [ex_request ''Telegram'' 2])"
proof -
  note q = ex_quote [OF ex_pool_of_fields(1,2) refl refl ex_weights [OF ex_pool_of_fields(3)]]
  show "get_endicia_shipping_cost (ex_pool_of ms) ex_sale (Some (mailclass_value ex_first))
     = (Inr (11 / 2), [ex_request ''First'' 2])"
    by (simp only: ex_mailclass_values q(2))
  show "get_endicia_shipping_cost (ex_pool_of ms) ex_sale (Some (mailclass_value ex_express))
     = (Inr (11 / 2), [ex_request ''Express'' 2])"
    by (simp only: ex_mailclass_values q(3))
  show "get_endicia_shipping_cost (ex_pool_of ms) ex_sale (Some (mailclass_value ex_letter))
     = (Inl (CarrierRequestError ''Letter is not available''), [ex_request ''Letter'' 2])"
    by (simp only: ex_mailclass_values q(4))
  show "get_endicia_shipping_cost (ex_pool_of ms) ex_sale (Some (mailclass_value ex_telegram))
     = (Inl (OtherException ''connection reset''), [ex_request ''Telegram'' 2])"
    by (simp only: ex_mailclass_values q(5))
qed

theorem get_endicia_shipping_rates_one_carrier_witness:
  "length (Carrier_search (ex_pool\<lparr>carriers := []\<rparr>) ''endicia'') \<noteq> 1
   \<and> get_endicia_shipping_rates (ex_pool\<lparr>carriers := []\<rparr>) ex_sale True = (Inl ValueError, [])
   \<and> length (Carrier_search
               (ex_pool\<lparr>carriers := [ex_carrier, ex_carrier\<lparr>carrier_id := 2\<rparr>]\<rparr>) ''endicia'') \<noteq> 1
   \<and> get_endicia_shipping_rates
        (ex_pool\<lparr>carriers := [ex_carrier, ex_carrier\<lparr>carrier_id := 2\<rparr>]\<rparr>) ex_sale False
       = (Inl ValueError, [])"
proof -
  have a: "length (Carrier_search (ex_pool\<lparr>carriers := []\<rparr>) ''endicia'') \<noteq> 1"
    by (simp add: Carrier_search_def)
  have b: "length (Carrier_search
               (ex_pool\<lparr>carriers := [ex_carrier, ex_carrier\<lparr>carrier_id := 2\<rparr>]\<rparr>) ''endicia'') \<noteq> 1"
    by (simp add: Carrier_search_def ex_carrier_def)
  from get_endicia_shipping_rates_one_carrier [OF a, of ex_sale True]
    get_endicia_shipping_rates_one_carrier [OF b, of ex_sale False] a b
  show ?thesis by simp
qed

theorem get_endicia_shipping_rates_options_witness:
  "Carrier_search ex_pool ''endicia'' = [ex_carrier]
   \<and> Currency_search ex_pool ''USD'' = [ex_usd]
   \<and> get_endicia_mail_classes ex_pool (ex_sale\<lparr>endicia_mailclass := None\<rparr>)
       = [ex_first, ex_blank, ex_express]
   \<and> quote ex_pool (ex_sale\<lparr>endicia_mailclass := None\<rparr>) ex_first = Inr (11 / 2)
   \<and> quote ex_pool (ex_sale\<lparr>endicia_mailclass := None\<rparr>) ex_blank = Inl MailClassMissingError
   \<and> quote ex_pool (ex_sale\<lparr>endicia_mailclass := None\<rparr>) ex_express = Inr (11 / 2)
   \<and> fst (get_endicia_shipping_rates ex_pool (ex_sale\<lparr>endicia_mailclass := None\<rparr>) True)
       = Inr [(''USPS First-Class Mail'', 11 / 2, ex_usd, [],
               [(''carrier'', 1), (''endicia_mailclass'', 1)]),
              (''USPS Priority Mail Express'', 11 / 2, ex_usd, [],
               [(''carrier'', 1), (''endicia_mailclass'', 3)])]
   \<and> fst (get_endicia_shipping_rates ex_pool (ex_sale\<lparr>endicia_mailclass := None\<rparr>) False)
       = Inl MailClassMissingError"
proof -
  let ?s = "ex_sale\<lparr>endicia_mailclass := None\<rparr>"
  have m: "get_endicia_mail_classes ex_pool ?s = [ex_first, ex_blank, ex_express]"
    by (simp add: get_endicia_mail_classes_def ex_pool_fields)
  have f: "quote_failures ex_pool ?s [ex_first, ex_blank, ex_express] = [MailClassMissingError]"
    by (simp add: ex_unselected)
  have o: "quoted_options ex_pool ?s ex_carrier ex_usd [ex_first, ex_blank, ex_express]
      = [(''USPS First-Class Mail'', 11 / 2, ex_usd, [],
               [(''carrier'', 1), (''endicia_mailclass'', 1)]),
              (''USPS Priority Mail Express'', 11 / 2, ex_usd, [],
               [(''carrier'', 1), (''endicia_mailclass'', 3)])]"
    by (simp add: ex_unselected ex_rate_options [OF ex_pool_fields(8)])
  have u: "\<forall>e \<in> set (quote_failures ex_pool ?s (get_endicia_mail_classes ex_pool ?s)).
      is_UserError e"
    unfolding m f by simp
  from get_endicia_shipping_rates_options [OF ex_searches(3,1), of ?s] u
  have "fst (get_endicia_shipping_rates ex_pool ?s True)
          = Inr (quoted_options ex_pool ?s ex_carrier ex_usd (get_endicia_mail_classes ex_pool ?s))"
    and "fst (get_endicia_shipping_rates ex_pool ?s False)
           = (case quote_failures ex_pool ?s (get_endicia_mail_classes ex_pool ?s) of
                [] \<Rightarrow> Inr (quoted_options ex_pool ?s ex_carrier ex_usd
                         (get_endicia_mail_classes ex_pool ?s))
              | e # es \<Rightarrow> Inl e)"
    by blast+
  then have "fst (get_endicia_shipping_rates ex_pool ?s True)
       = Inr [(''USPS First-Class Mail'', 11 / 2, ex_usd, [],
               [(''carrier'', 1), (''endicia_mailclass'', 1)]),
              (''USPS Priority Mail Express'', 11 / 2, ex_usd, [],
               [(''carrier'', 1), (''endicia_mailclass'', 3)])]"
    and "fst (get_endicia_shipping_rates ex_pool ?s False) = Inl MailClassMissingError"
    by (simp_all only: m f o list.case)
  then show ?thesis using m ex_unselected ex_searches(1,3) by simp
qed

text \<open>
  The remote service reports an error for the second of three mail classes: the quote
  raises the carrier request error, and rate shopping with \<open>silent\<close> true returns the
  options of the other two.
\<close>

theorem get_endicia_shipping_rates_swallows_request_error:
  "get_endicia_shipping_cost (ex_pool_of [ex_first, ex_letter, ex_express]) ex_sale
       (Some (mailclass_value ex_letter))
     = (Inl (CarrierRequestError ''Letter is not available''), [ex_request ''Letter'' 2])
   \<and> get_endicia_shipping_rates (ex_pool_of [ex_first, ex_letter, ex_express]) ex_sale True
     = (Inr [(''USPS First-Class Mail'', 11 / 2, ex_usd, [],
               [(''carrier'', 1), (''endicia_mailclass'', 1)]),
              (''USPS Priority Mail Express'', 11 / 2, ex_usd, [],
               [(''carrier'', 1), (''endicia_mailclass'', 3)])],
        [ex_request ''First'' 2, ex_request ''Letter'' 2, ex_request ''Express'' 2])"
proof -
  let ?P = "ex_pool_of [ex_first, ex_letter, ex_express]"
  have r: "make_endicia_rate_line ?P ex_carrier mc cost = Inr (rate_option ?P ex_carrier ex_usd mc cost)"
    for mc cost
    by (rule make_endicia_rate_line_usd [OF ex_pool_of_fields(6)])
  have "rates_loop ?P ex_sale True ex_carrier [ex_first, ex_letter, ex_express] []
     = (Inr [(''USPS First-Class Mail'', 11 / 2, ex_usd, [],
               [(''carrier'', 1), (''endicia_mailclass'', 1)]),
              (''USPS Priority Mail Express'', 11 / 2, ex_usd, [],
               [(''carrier'', 1), (''endicia_mailclass'', 3)])],
        [ex_request ''First'' 2, ex_request ''Letter'' 2, ex_request ''Express'' 2])"
    by (simp add: ex_selected r ex_rate_options [OF ex_pool_of_fields(4)])
  then have "get_endicia_shipping_rates ?P ex_sale True
     = (Inr [(''USPS First-Class Mail'', 11 / 2, ex_usd, [],
               [(''carrier'', 1), (''endicia_mailclass'', 1)]),
              (''USPS Priority Mail Express'', 11 / 2, ex_usd, [],
               [(''carrier'', 1), (''endicia_mailclass'', 3)])],
        [ex_request ''First'' 2, ex_request ''Letter'' 2, ex_request ''Express'' 2])"
    by (simp add: get_endicia_shipping_rates_def get_endicia_mail_classes_def
        ex_pool_of_fields truthy_rate_line_def)
  then show ?thesis using ex_selected(3) [of "[ex_first, ex_letter, ex_express]"] by simp
qed

theorem get_endicia_shipping_rates_silent_witness:
  "Carrier_search (ex_pool_of [ex_first, ex_letter, ex_telegram, ex_express]) ''endicia''
     = [ex_carrier]
   \<and> Currency_search (ex_pool_of [ex_first, ex_letter, ex_telegram, ex_express]) ''USD''
     = [ex_usd]
   \<and> get_endicia_mail_classes (ex_pool_of [ex_first, ex_letter, ex_telegram, ex_express]) ex_sale
     = [ex_first, ex_letter] @ ex_telegram # [ex_express]
   \<and> quote_failures (ex_pool_of [ex_first, ex_letter, ex_telegram, ex_express]) ex_sale
       [ex_first, ex_letter] = [CarrierRequestError ''Letter is not available'']
   \<and> is_UserError (CarrierRequestError ''Letter is not available'')
   \<and> get_endicia_shipping_cost (ex_pool_of [ex_first, ex_letter, ex_telegram, ex_express])
       ex_sale (Some (mailclass_value ex_telegram))
     = (Inl (OtherException ''connection reset''), [ex_request ''Telegram'' 2])
   \<and> \<not> is_UserError (OtherException ''connection reset'')
   \<and> get_endicia_shipping_rates (ex_pool_of [ex_first, ex_letter, ex_telegram, ex_express])
       ex_sale True
     = (Inl (OtherException ''connection reset''),
        [ex_request ''First'' 2, ex_request ''Letter'' 2, ex_request ''Telegram'' 2])"
proof -
  let ?P = "ex_pool_of [ex_first, ex_letter, ex_telegram, ex_express]"
  have m: "get_endicia_mail_classes ?P ex_sale = [ex_first, ex_letter] @ ex_telegram # [ex_express]"
    by (simp add: get_endicia_mail_classes_def ex_pool_of_fields)
  have f: "quote_failures ?P ex_sale [ex_first, ex_letter]
      = [CarrierRequestError ''Letter is not available'']"
    by (simp add: quote_def ex_selected)
  have u: "\<forall>e' \<in> set (quote_failures ?P ex_sale [ex_first, ex_letter]). is_UserError e'"
    unfolding f by simp
  have t: "get_endicia_shipping_cost ?P ex_sale (Some (mailclass_value ex_telegram))
     = (Inl (OtherException ''connection reset''), [ex_request ''Telegram'' 2])"
    by (rule ex_selected(4))
  have n: "\<not> is_UserError (OtherException ''connection reset'')" by simp
  have s: "concat (map (quote_requests ?P ex_sale) [ex_first, ex_letter])
      = [ex_request ''First'' 2, ex_request ''Letter'' 2]"
    by (simp add: quote_requests_def ex_selected)
  from get_endicia_shipping_rates_silent [OF ex_pool_of_fields(7,6), of _ ex_sale]
  have "get_endicia_mail_classes ?P ex_sale = [ex_first, ex_letter] @ ex_telegram # [ex_express]
            \<and> (\<forall>e' \<in> set (quote_failures ?P ex_sale [ex_first, ex_letter]). is_UserError e')
            \<and> get_endicia_shipping_cost ?P ex_sale (Some (mailclass_value ex_telegram))
                = (Inl (OtherException ''connection reset''), [ex_request ''Telegram'' 2])
            \<and> \<not> is_UserError (OtherException ''connection reset'')
            \<longrightarrow> get_endicia_shipping_rates ?P ex_sale True
                  = (Inl (OtherException ''connection reset''),
                     concat (map (quote_requests ?P ex_sale) [ex_first, ex_letter])
                     @ [ex_request ''Telegram'' 2])"
    by blast
  with m u t n have "get_endicia_shipping_rates ?P ex_sale True
                  = (Inl (OtherException ''connection reset''),
                     concat (map (quote_requests ?P ex_sale) [ex_first, ex_letter])
                     @ [ex_request ''Telegram'' 2])"
    by blast
  then have "get_endicia_shipping_rates ?P ex_sale True
     = (Inl (OtherException ''connection reset''),
        [ex_request ''First'' 2, ex_request ''Letter'' 2, ex_request ''Telegram'' 2])"
    by (simp only: s append_Cons append_Nil)
  then show ?thesis using m f t ex_pool_of_fields(6,7) by simp
qed

subsection \<open>The shipping line\<close>

text \<open>
  C8. The method returns the order as it was, lines included, when the order has no
  carrier or a carrier of another cost method, and when the cost in USD is
  \<^verbatim>\<open>None\<close> or zero.
\<close>

theorem apply_endicia_shipping_no_change:
  "(carrier s = None \<or> (\<exists>c. carrier s = Some c \<and> carrier_cost_method c \<noteq> ''endicia'')
      \<longrightarrow> apply_endicia_shipping P s = Inr s)
   \<and> (\<forall>c mc cost cur.
        carrier s = Some c \<and> carrier_cost_method c = ''endicia''
        \<and> endicia_mailclass s = Some mc
        \<and> get_sale_price P c s = Inr (cost, cur) \<and> \<not> truthy_decimal cost
        \<longrightarrow> apply_endicia_shipping P s = Inr s)"
  by (auto simp: apply_endicia_shipping_def split: option.splits)

lemma fold_max_ge: "(a::nat) \<le> fold max xs a"
proof (induction xs arbitrary: a)
  case Nil
  show ?case by simp
next
  case (Cons x xs)
  have "a \<le> max x a" by simp
  also have "\<dots> \<le> fold max xs (max x a)" by (rule Cons.IH)
  finally show ?case by simp
qed

lemma fold_max_member: "x \<in> set xs \<Longrightarrow> (x::nat) \<le> fold max xs a"
proof (induction xs arbitrary: a)
  case Nil
  then show ?case by simp
next
  case (Cons y ys)
  show ?case
  proof (cases "x = y")
    case True
    have "x \<le> max y a" using True by simp
    also have "\<dots> \<le> fold max ys (max y a)" by (rule fold_max_ge)
    finally show ?thesis by simp
  next
    case False
    with Cons.prems have "x \<in> set ys" by simp
    then show ?thesis using Cons.IH by simp
  qed
qed

lemma fresh_line_id_gt: "l \<in> set ls \<Longrightarrow> line_id l < fresh_line_id ls"
  using fold_max_member [of "line_id l" "map line_id ls" 0]
  by (simp add: fresh_line_id_def less_Suc_eq_le)

lemma fresh_line_id_new: "fresh_line_id ls \<notin> set (map line_id ds)" if "set ds \<subseteq> set ls"
proof
  assume "fresh_line_id ls \<in> set (map line_id ds)"
  then obtain d where "d \<in> set ds" and "line_id d = fresh_line_id ls" by auto
  with that fresh_line_id_gt [of d ls] show False by auto
qed

lemma line_id_create_line: "line_id (create_line n v) = n"
  by (simp add: create_line_def)

lemma write_shipping_lines:
  "write_lines ls [Create [v], Delete (filter is_shipment_cost_line ls)]
     = filter (\<lambda>l. line_id l \<notin> set (map line_id (filter is_shipment_cost_line ls))) ls
       @ [create_line (fresh_line_id ls) v]"
  using fresh_line_id_new [of "filter is_shipment_cost_line ls" ls]
  by (simp add: line_id_create_line)

lemma no_old_shipping_line:
  "filter is_shipment_cost_line
     (filter (\<lambda>l. line_id l \<notin> set (map line_id (filter is_shipment_cost_line ls))) ls) = []"
  by (auto simp: filter_empty_conv)

lemma is_shipment_cost_line_created:
  "is_shipment_cost_line (create_line n (shipping_line_values c mc cost)) \<longleftrightarrow> cost \<noteq> 0"
  by (simp add: is_shipment_cost_line_def create_line_def shipping_line_values_def)

lemma shipping_lines_after_write:
  "filter is_shipment_cost_line
     (write_lines ls [Create [shipping_line_values c mc cost],
                      Delete (filter is_shipment_cost_line ls)])
   = (if cost = 0 then []
      else [create_line (fresh_line_id ls) (shipping_line_values c mc cost)])"
proof -
  have "filter is_shipment_cost_line
          (write_lines ls [Create [shipping_line_values c mc cost],
                           Delete (filter is_shipment_cost_line ls)])
      = filter is_shipment_cost_line
          (filter (\<lambda>l. line_id l \<notin> set (map line_id (filter is_shipment_cost_line ls))) ls)
        @ filter is_shipment_cost_line
            [create_line (fresh_line_id ls) (shipping_line_values c mc cost)]"
    by (simp only: write_shipping_lines filter_append)
  also have "\<dots> = filter is_shipment_cost_line
            [create_line (fresh_line_id ls) (shipping_line_values c mc cost)]"
    by (simp only: no_old_shipping_line append_Nil)
  also have "\<dots> = (if cost = 0 then []
      else [create_line (fresh_line_id ls) (shipping_line_values c mc cost)])"
    by (simp add: is_shipment_cost_line_created)
  finally show ?thesis .
qed

lemma old_shipping_lines_deleted:
  assumes "old \<in> set ls" and "is_shipment_cost_line old"
  shows "line_id old \<notin> set (map line_id
           (write_lines ls [Create [v], Delete (filter is_shipment_cost_line ls)]))"
proof -
  have "line_id old \<noteq> line_id (create_line (fresh_line_id ls) v)"
    using fresh_line_id_gt [OF assms(1)] by (simp add: line_id_create_line)
  moreover have "line_id old \<in> set (map line_id (filter is_shipment_cost_line ls))"
    using assms by auto
  ultimately show ?thesis
    by (simp only: write_shipping_lines) auto
qed

lemma apply_endicia_shipping_writes:
  assumes "carrier s = Some c" and "carrier_cost_method c = ''endicia''"
      and "endicia_mailclass s = Some mc"
      and "get_sale_price P c s = Inr (Some cost_usd, cur)" and "cost_usd \<noteq> 0"
      and "Currency_search P ''USD'' = [usd]"
  shows "apply_endicia_shipping P s =
           Inr (s\<lparr>lines := write_lines (lines s)
                  [Create [shipping_line_values c mc (compute P usd cost_usd (currency s))],
                   Delete (filter is_shipment_cost_line (lines s))]\<rparr>)"
  using assms by (simp add: apply_endicia_shipping_def Let_def del: write_lines.simps)

lemma apply_endicia_shipping_once:
  assumes "carrier s = Some c" and "carrier_cost_method c = ''endicia''"
      and "endicia_mailclass s = Some mc"
      and "Currency_search P ''USD'' = [usd]"
      and "get_sale_price P c s = Inr (Some cost_usd, cur)" and "cost_usd \<noteq> 0"
      and "compute P usd cost_usd (currency s) \<noteq> 0"
  shows "\<exists>ls' l. apply_endicia_shipping P s = Inr (s\<lparr>lines := ls'\<rparr>)
           \<and> filter is_shipment_cost_line ls' = [l]
           \<and> unit_price l = compute P usd cost_usd (currency s)
           \<and> amount l = compute P usd cost_usd (currency s)
           \<and> shipment_cost l = Some (compute P usd cost_usd (currency s))
           \<and> (\<forall>old \<in> set (lines s). is_shipment_cost_line old \<longrightarrow>
                 line_id old \<notin> set (map line_id ls'))"
proof -
  let ?cost = "compute P usd cost_usd (currency s)"
  let ?l = "create_line (fresh_line_id (lines s)) (shipping_line_values c mc ?cost)"
  let ?ls' = "write_lines (lines s) [Create [shipping_line_values c mc ?cost],
                 Delete (filter is_shipment_cost_line (lines s))]"
  have a: "apply_endicia_shipping P s = Inr (s\<lparr>lines := ?ls'\<rparr>)"
    by (rule apply_endicia_shipping_writes [OF assms(1,2,3,5,6,4)])
  have f: "filter is_shipment_cost_line ?ls' = [?l]"
    using assms(7) by (simp only: shipping_lines_after_write if_False)
  have v: "unit_price ?l = ?cost \<and> amount ?l = ?cost \<and> shipment_cost ?l = Some ?cost"
    by (simp add: create_line_def shipping_line_values_def)
  have old: "\<forall>old \<in> set (lines s). is_shipment_cost_line old \<longrightarrow>
                 line_id old \<notin> set (map line_id ?ls')"
    using old_shipping_lines_deleted by blast
  from a f v old show ?thesis by blast
qed

text \<open>
  C1, as amended. For an order with an endicia carrier and a mail class, one USD
  currency, a cost in USD that is not zero and a converted cost that is not zero either:
  the method completes, and afterwards exactly one line of the order is a shipment-cost
  line; its unit price, amount and shipment cost are the converted cost, and no line that
  was a shipment-cost line before is left. Applied once more under the same conditions,
  it leaves exactly one shipment-cost line again, with the cost converted then, and the
  line of the first application is gone.
\<close>

theorem apply_endicia_shipping_one_shipping_line:
  assumes "carrier s = Some c" and "carrier_cost_method c = ''endicia''"
      and "endicia_mailclass s = Some mc"
      and "Currency_search P ''USD'' = [usd]"
      and "get_sale_price P c s = Inr (Some cost_usd, cur)" and "cost_usd \<noteq> 0"
      and "compute P usd cost_usd (currency s) \<noteq> 0"
  shows "\<exists>s' l. apply_endicia_shipping P s = Inr s'
           \<and> filter is_shipment_cost_line (lines s') = [l]
           \<and> unit_price l = compute P usd cost_usd (currency s)
           \<and> amount l = compute P usd cost_usd (currency s)
           \<and> shipment_cost l = Some (compute P usd cost_usd (currency s))
           \<and> (\<forall>old \<in> set (lines s). is_shipment_cost_line old \<longrightarrow>
                 line_id old \<notin> set (map line_id (lines s')))
           \<and> (\<forall>cost_usd' cur'.
                 get_sale_price P c s' = Inr (Some cost_usd', cur') \<and> cost_usd' \<noteq> 0
                 \<and> compute P usd cost_usd' (currency s) \<noteq> 0 \<longrightarrow>
                 (\<exists>s'' l'. apply_endicia_shipping P s' = Inr s''
                    \<and> filter is_shipment_cost_line (lines s'') = [l']
                    \<and> unit_price l' = compute P usd cost_usd' (currency s)
                    \<and> amount l' = compute P usd cost_usd' (currency s)
                    \<and> shipment_cost l' = Some (compute P usd cost_usd' (currency s))
                    \<and> line_id l \<notin> set (map line_id (lines s''))))"
proof -
  from apply_endicia_shipping_once [OF assms]
  obtain ls' l where a: "apply_endicia_shipping P s = Inr (s\<lparr>lines := ls'\<rparr>)"
    and f: "filter is_shipment_cost_line ls' = [l]"
    and v: "unit_price l = compute P usd cost_usd (currency s)"
           "amount l = compute P usd cost_usd (currency s)"
           "shipment_cost l = Some (compute P usd cost_usd (currency s))"
    and old: "\<forall>old \<in> set (lines s). is_shipment_cost_line old \<longrightarrow>
                 line_id old \<notin> set (map line_id ls')"
    by blast
  let ?s' = "s\<lparr>lines := ls'\<rparr>"
  have "l \<in> set (filter is_shipment_cost_line ls')" using f by simp
  then have l: "l \<in> set (lines ?s')" "is_shipment_cost_line l" by simp_all
  have again: "\<exists>s'' l'. apply_endicia_shipping P ?s' = Inr s''
                    \<and> filter is_shipment_cost_line (lines s'') = [l']
                    \<and> unit_price l' = compute P usd cost_usd' (currency s)
                    \<and> amount l' = compute P usd cost_usd' (currency s)
                    \<and> shipment_cost l' = Some (compute P usd cost_usd' (currency s))
                    \<and> line_id l \<notin> set (map line_id (lines s''))"
    if g: "get_sale_price P c ?s' = Inr (Some cost_usd', cur')" and nz: "cost_usd' \<noteq> 0"
      and cz: "compute P usd cost_usd' (currency s) \<noteq> 0" for cost_usd' cur'
  proof -
    have c': "carrier ?s' = Some c" "endicia_mailclass ?s' = Some mc"
      using assms(1,3) by simp_all
    have cz': "compute P usd cost_usd' (currency ?s') \<noteq> 0" using cz by simp
    from apply_endicia_shipping_once [OF c'(1) assms(2) c'(2) assms(4) g nz cz']
    obtain ls'' l' where a': "apply_endicia_shipping P ?s' = Inr (?s'\<lparr>lines := ls''\<rparr>)"
      and f': "filter is_shipment_cost_line ls'' = [l']"
      and v': "unit_price l' = compute P usd cost_usd' (currency ?s')"
           "amount l' = compute P usd cost_usd' (currency ?s')"
           "shipment_cost l' = Some (compute P usd cost_usd' (currency ?s'))"
      and old': "\<forall>old \<in> set (lines ?s'). is_shipment_cost_line old \<longrightarrow>
                 line_id old \<notin> set (map line_id ls'')"
      by blast
    have "line_id l \<notin> set (map line_id ls'')" using old' l by blast
    with a' f' v' show ?thesis by simp
  qed
  show ?thesis
  proof (intro exI [of _ ?s'] exI [of _ l] conjI)
    show "apply_endicia_shipping P s = Inr ?s'" by (rule a)
    show "filter is_shipment_cost_line (lines ?s') = [l]" using f by simp
    show "unit_price l = compute P usd cost_usd (currency s)" by (rule v(1))
    show "amount l = compute P usd cost_usd (currency s)" by (rule v(2))
    show "shipment_cost l = Some (compute P usd cost_usd (currency s))" by (rule v(3))
    show "\<forall>old \<in> set (lines s). is_shipment_cost_line old \<longrightarrow>
                 line_id old \<notin> set (map line_id (lines ?s'))" using old by simp
    show "\<forall>cost_usd' cur'.
                 get_sale_price P c ?s' = Inr (Some cost_usd', cur') \<and> cost_usd' \<noteq> 0
                 \<and> compute P usd cost_usd' (currency s) \<noteq> 0 \<longrightarrow>
                 (\<exists>s'' l'. apply_endicia_shipping P ?s' = Inr s''
                    \<and> filter is_shipment_cost_line (lines s'') = [l']
                    \<and> unit_price l' = compute P usd cost_usd' (currency s)
                    \<and> amount l' = compute P usd cost_usd' (currency s)
                    \<and> shipment_cost l' = Some (compute P usd cost_usd' (currency s))
                    \<and> line_id l \<notin> set (map line_id (lines s'')))"
      using again by blast
  qed
qed

lemma ex_sale_fields:
  "carrier ex_sale = Some ex_carrier" "endicia_mailclass ex_sale = Some ex_first"
  "currency ex_sale = ex_usd"
  "lines ex_sale = [ex_line 1 ex_widget 1 None, ex_line 2 ex_shipping 1 (Some 3)]"
  "carrier_cost_method ex_carrier = ''endicia''"
  by (simp_all add: ex_sale_def ex_carrier_def)

lemma ex_shipment_cost_lines:
  "is_shipment_cost_line (ex_line n p q (Some 3))"
  "\<not> is_shipment_cost_line (ex_line n p q None)"
  "line_id (ex_line n p q c) = n"
  by (simp_all add: is_shipment_cost_line_def ex_line_def)

lemma ex_lines_after:
  "write_lines (lines ex_sale)
     [Create [shipping_line_values ex_carrier ex_first cost],
      Delete (filter is_shipment_cost_line (lines ex_sale))]
   = [ex_line 1 ex_widget 1 None,
      create_line 3 (shipping_line_values ex_carrier ex_first cost)]"
proof -
  have "fresh_line_id (lines ex_sale) = 3"
    by (simp add: fresh_line_id_def ex_sale_fields(4) ex_shipment_cost_lines(3))
  then show ?thesis
    by (simp only: write_shipping_lines)
       (simp add: ex_sale_fields(4) ex_shipment_cost_lines)
qed

text \<open>
  The carrier's price of the example is the quote of the order: 5.50 USD for every order
  that has the mail class and the addresses of the example and lines of 2 oz.
\<close>

lemma ex_price:
  assumes "endicia_mailclass s = Some ex_first"
      and "shipment_address s = shipment_address ex_sale"
      and "warehouse_address s = warehouse_address ex_sale"
      and "weights ex_quote_pool (lines s) = Inr [2, 0]"
  shows "get_sale_price ex_pool ex_carrier s = Inr (Some (11 / 2), 1)"
  using ex_quote(1) [OF ex_pool_fields(3,4) assms(2,3,4) assms(1)]
  by (simp add: ex_pool_fields(5) ex_get_sale_price_def)

lemma ex_weights_after:
  "weights ex_quote_pool
     [ex_line 1 ex_widget 1 None, create_line 3 (shipping_line_values ex_carrier ex_first cost)]
   = Inr [2, 0]"
  by (simp add: ex_weight_widget [OF ex_float_mul(2)] ex_weight_created)

lemma ex_round: "round (11 / 40 :: rat) = 0"
  by (simp add: round_def floor_eq_iff)

theorem apply_endicia_shipping_no_change_witness:
  "carrier (ex_sale\<lparr>carrier := None\<rparr>) = None
   \<and> apply_endicia_shipping ex_pool (ex_sale\<lparr>carrier := None\<rparr>) = Inr (ex_sale\<lparr>carrier := None\<rparr>)
   \<and> carrier (ex_sale\<lparr>carrier := Some (ex_carrier\<lparr>carrier_cost_method := ''product''\<rparr>)\<rparr>)
       = Some (ex_carrier\<lparr>carrier_cost_method := ''product''\<rparr>)
   \<and> carrier_cost_method (ex_carrier\<lparr>carrier_cost_method := ''product''\<rparr>) \<noteq> ''endicia''
   \<and> apply_endicia_shipping ex_pool
        (ex_sale\<lparr>carrier := Some (ex_carrier\<lparr>carrier_cost_method := ''product''\<rparr>)\<rparr>)
       = Inr (ex_sale\<lparr>carrier := Some (ex_carrier\<lparr>carrier_cost_method := ''product''\<rparr>)\<rparr>)
   \<and> carrier ex_sale = Some ex_carrier \<and> carrier_cost_method ex_carrier = ''endicia''
   \<and> endicia_mailclass ex_sale = Some ex_first
   \<and> get_sale_price (ex_pool\<lparr>get_sale_price := ex_zero_price\<rparr>) ex_carrier ex_sale
       = Inr (Some 0, 1)
   \<and> \<not> truthy_decimal (Some 0)
   \<and> apply_endicia_shipping (ex_pool\<lparr>get_sale_price := ex_zero_price\<rparr>) ex_sale = Inr ex_sale
   \<and> get_sale_price ex_quote_pool ex_carrier ex_sale = Inr (None, 1)
   \<and> \<not> truthy_decimal None
   \<and> apply_endicia_shipping ex_quote_pool ex_sale = Inr ex_sale"
proof -
  let ?s1 = "ex_sale\<lparr>carrier := None\<rparr>"
  let ?s2 = "ex_sale\<lparr>carrier := Some (ex_carrier\<lparr>carrier_cost_method := ''product''\<rparr>)\<rparr>"
  let ?P = "ex_pool\<lparr>get_sale_price := ex_zero_price\<rparr>"
  have a: "carrier ?s1 = None" by simp
  have b: "carrier ?s2 = Some (ex_carrier\<lparr>carrier_cost_method := ''product''\<rparr>)"
    "carrier_cost_method (ex_carrier\<lparr>carrier_cost_method := ''product''\<rparr>) \<noteq> ''endicia''"
    by simp_all
  have z: "get_sale_price ?P ex_carrier ex_sale = Inr (Some 0, 1)" "\<not> truthy_decimal (Some 0)"
    by (simp_all add: ex_zero_price_def)
  have n: "get_sale_price ex_quote_pool ex_carrier ex_sale = Inr (None, 1)" "\<not> truthy_decimal None"
    by (simp_all add: ex_pool_fields(6) ex_no_price_def)
  have 1: "apply_endicia_shipping ex_pool ?s1 = Inr ?s1"
    using apply_endicia_shipping_no_change [of ?s1 ex_pool] a by blast
  have 2: "apply_endicia_shipping ex_pool ?s2 = Inr ?s2"
    using apply_endicia_shipping_no_change [of ?s2 ex_pool] b by blast
  have 3: "apply_endicia_shipping ?P ex_sale = Inr ex_sale"
    using apply_endicia_shipping_no_change [of ex_sale ?P] ex_sale_fields(1,2,5) z by blast
  have 4: "apply_endicia_shipping ex_quote_pool ex_sale = Inr ex_sale"
    using apply_endicia_shipping_no_change [of ex_sale ex_quote_pool] ex_sale_fields(1,2,5) n
    by blast
  from a b z n 1 2 3 4 ex_sale_fields(1,2,5) show ?thesis by simp
qed

text \<open>
  The example order kept in XAU: the cost of 5.50 USD is not zero, the converted cost
  is 0.00 XAU, and the line the method creates is no shipment-cost line. Afterwards the
  order has no shipment-cost line.
\<close>

theorem apply_endicia_shipping_zero_converted_cost:
  "carrier (ex_sale\<lparr>currency := ex_xau\<rparr>) = Some ex_carrier
   \<and> carrier_cost_method ex_carrier = ''endicia''
   \<and> endicia_mailclass (ex_sale\<lparr>currency := ex_xau\<rparr>) = Some ex_first
   \<and> get_sale_price ex_pool ex_carrier (ex_sale\<lparr>currency := ex_xau\<rparr>) = Inr (Some (11 / 2), 1)
   \<and> truthy_decimal (Some (11 / 2))
   \<and> apply_endicia_shipping ex_pool (ex_sale\<lparr>currency := ex_xau\<rparr>)
       = Inr (ex_sale\<lparr>currency := ex_xau,
                     lines := [ex_line 1 ex_widget 1 None,
                               create_line 3 (shipping_line_values ex_carrier ex_first 0)]\<rparr>)
   \<and> filter is_shipment_cost_line
        (lines (ex_sale\<lparr>currency := ex_xau,
                     lines := [ex_line 1 ex_widget 1 None,
                               create_line 3 (shipping_line_values ex_carrier ex_first 0)]\<rparr>)) = []"
proof -
  let ?s = "ex_sale\<lparr>currency := ex_xau\<rparr>"
  have h: "carrier ?s = Some ex_carrier" "carrier_cost_method ex_carrier = ''endicia''"
    "endicia_mailclass ?s = Some ex_first"
    by (simp_all add: ex_sale_fields)
  have w: "weights ex_quote_pool (lines ?s) = Inr [2, 0]"
    using ex_weights [OF ex_float_mul(2)] by simp
  have g: "get_sale_price ex_pool ex_carrier ?s = Inr (Some (11 / 2), 1)"
    by (rule ex_price [OF h(3) _ _ w]) simp_all
  have c: "compute ex_pool ex_usd (11 / 2) (currency ?s) = 0"
    by (simp add: ex_pool_fields(7) ex_compute_def ex_xau_def ex_round)
  have "apply_endicia_shipping ex_pool ?s =
           Inr (?s\<lparr>lines := write_lines (lines ?s)
                  [Create [shipping_line_values ex_carrier ex_first
                            (compute ex_pool ex_usd (11 / 2) (currency ?s))],
                   Delete (filter is_shipment_cost_line (lines ?s))]\<rparr>)"
    by (rule apply_endicia_shipping_writes [OF h g _ ex_searches(1)]) simp
  then have a: "apply_endicia_shipping ex_pool ?s
       = Inr (ex_sale\<lparr>currency := ex_xau,
                     lines := [ex_line 1 ex_widget 1 None,
                               create_line 3 (shipping_line_values ex_carrier ex_first 0)]\<rparr>)"
    using ex_lines_after [of 0] by (simp only: c) (simp del: write_lines.simps)
  have f: "filter is_shipment_cost_line
        [ex_line 1 ex_widget 1 None,
         create_line 3 (shipping_line_values ex_carrier ex_first 0)] = []"
    by (simp add: ex_shipment_cost_lines(2) is_shipment_cost_line_created)
  from h g a f show ?thesis by simp
qed

theorem apply_endicia_shipping_one_shipping_line_witness:
  "carrier ex_sale = Some ex_carrier \<and> carrier_cost_method ex_carrier = ''endicia''
   \<and> endicia_mailclass ex_sale = Some ex_first
   \<and> Currency_search ex_pool ''USD'' = [ex_usd]
   \<and> get_sale_price ex_pool ex_carrier ex_sale = Inr (Some (11 / 2), 1)
   \<and> (11 / 2 :: rat) \<noteq> 0
   \<and> compute ex_pool ex_usd (11 / 2) (currency ex_sale) = 11 / 2
   \<and> is_shipment_cost_line (ex_line 2 ex_shipping 1 (Some 3))
   \<and> (\<exists>s' l. apply_endicia_shipping ex_pool ex_sale = Inr s'
        \<and> filter is_shipment_cost_line (lines s') = [l]
        \<and> unit_price l = 11 / 2 \<and> amount l = 11 / 2 \<and> shipment_cost l = Some (11 / 2)
        \<and> line_id (ex_line 2 ex_shipping 1 (Some 3)) \<notin> set (map line_id (lines s'))
        \<and> get_sale_price ex_pool ex_carrier s' = Inr (Some (11 / 2), 1)
        \<and> (\<exists>s'' l'. apply_endicia_shipping ex_pool s' = Inr s''
              \<and> filter is_shipment_cost_line (lines s'') = [l']
              \<and> unit_price l' = 11 / 2 \<and> amount l' = 11 / 2
              \<and> shipment_cost l' = Some (11 / 2)
              \<and> line_id l \<notin> set (map line_id (lines s''))))"
proof -
  have w: "weights ex_quote_pool (lines ex_sale) = Inr [2, 0]"
    by (rule ex_weights [OF ex_float_mul(2)])
  have g: "get_sale_price ex_pool ex_carrier ex_sale = Inr (Some (11 / 2), 1)"
    by (rule ex_price [OF ex_sale_fields(2) refl refl w])
  have nz: "(11 / 2 :: rat) \<noteq> 0" by simp
  have c: "compute ex_pool ex_usd x (currency ex_sale) = x" for x
    by (simp add: ex_pool_fields(7) ex_compute_def ex_sale_fields(3) ex_usd_def)
  have cz: "compute ex_pool ex_usd (11 / 2) (currency ex_sale) \<noteq> 0"
    by (simp add: c)
  from apply_endicia_shipping_one_shipping_line
         [OF ex_sale_fields(1,5,2) ex_searches(1) g nz cz]
  obtain s' l where a: "apply_endicia_shipping ex_pool ex_sale = Inr s'"
    and f: "filter is_shipment_cost_line (lines s') = [l]"
    and v: "unit_price l = compute ex_pool ex_usd (11 / 2) (currency ex_sale)"
           "amount l = compute ex_pool ex_usd (11 / 2) (currency ex_sale)"
           "shipment_cost l = Some (compute ex_pool ex_usd (11 / 2) (currency ex_sale))"
    and old: "\<forall>old \<in> set (lines ex_sale). is_shipment_cost_line old \<longrightarrow>
                 line_id old \<notin> set (map line_id (lines s'))"
    and again: "\<forall>cost_usd' cur'.
                 get_sale_price ex_pool ex_carrier s' = Inr (Some cost_usd', cur')
                 \<and> cost_usd' \<noteq> 0
                 \<and> compute ex_pool ex_usd cost_usd' (currency ex_sale) \<noteq> 0 \<longrightarrow>
                 (\<exists>s'' l'. apply_endicia_shipping ex_pool s' = Inr s''
                    \<and> filter is_shipment_cost_line (lines s'') = [l']
                    \<and> unit_price l' = compute ex_pool ex_usd cost_usd' (currency ex_sale)
                    \<and> amount l' = compute ex_pool ex_usd cost_usd' (currency ex_sale)
                    \<and> shipment_cost l' = Some (compute ex_pool ex_usd cost_usd' (currency ex_sale))
                    \<and> line_id l \<notin> set (map line_id (lines s'')))"
    by blast
  have "apply_endicia_shipping ex_pool ex_sale =
           Inr (ex_sale\<lparr>lines := write_lines (lines ex_sale)
                  [Create [shipping_line_values ex_carrier ex_first
                            (compute ex_pool ex_usd (11 / 2) (currency ex_sale))],
                   Delete (filter is_shipment_cost_line (lines ex_sale))]\<rparr>)"
    by (rule apply_endicia_shipping_writes [OF ex_sale_fields(1,5,2) g nz ex_searches(1)])
  then have "apply_endicia_shipping ex_pool ex_sale
      = Inr (ex_sale\<lparr>lines := [ex_line 1 ex_widget 1 None,
               create_line 3 (shipping_line_values ex_carrier ex_first (11 / 2))]\<rparr>)"
    by (simp only: c ex_lines_after)
  with a have s': "s' = ex_sale\<lparr>lines := [ex_line 1 ex_widget 1 None,
               create_line 3 (shipping_line_values ex_carrier ex_first (11 / 2))]\<rparr>"
    by simp
  have wa: "weights ex_quote_pool (lines s') = Inr [2, 0]"
    unfolding s' using ex_weights_after [of "11 / 2"] by simp
  have g': "get_sale_price ex_pool ex_carrier s' = Inr (Some (11 / 2), 1)"
    by (rule ex_price [OF _ _ _ wa]) (simp_all add: s' ex_sale_fields(2))
  from again g' nz cz
  obtain s'' l' where a': "apply_endicia_shipping ex_pool s' = Inr s''"
    and f': "filter is_shipment_cost_line (lines s'') = [l']"
    and v': "unit_price l' = compute ex_pool ex_usd (11 / 2) (currency ex_sale)"
           "amount l' = compute ex_pool ex_usd (11 / 2) (currency ex_sale)"
           "shipment_cost l' = Some (compute ex_pool ex_usd (11 / 2) (currency ex_sale))"
    and gone: "line_id l \<notin> set (map line_id (lines s''))"
    by blast
  have o: "is_shipment_cost_line (ex_line 2 ex_shipping 1 (Some 3))"
    by (rule ex_shipment_cost_lines(1))
  have "ex_line 2 ex_shipping 1 (Some 3) \<in> set (lines ex_sale)"
    by (simp add: ex_sale_fields(4))
  with old o have d: "line_id (ex_line 2 ex_shipping 1 (Some 3)) \<notin> set (map line_id (lines s'))"
    by blast
  have second: "\<exists>s'' l'. apply_endicia_shipping ex_pool s' = Inr s''
              \<and> filter is_shipment_cost_line (lines s'') = [l']
              \<and> unit_price l' = 11 / 2 \<and> amount l' = 11 / 2
              \<and> shipment_cost l' = Some (11 / 2)
              \<and> line_id l \<notin> set (map line_id (lines s''))"
    using a' f' v' gone unfolding c by blast
  have first: "\<exists>s' l. apply_endicia_shipping ex_pool ex_sale = Inr s'
        \<and> filter is_shipment_cost_line (lines s') = [l]
        \<and> unit_price l = 11 / 2 \<and> amount l = 11 / 2 \<and> shipment_cost l = Some (11 / 2)
        \<and> line_id (ex_line 2 ex_shipping 1 (Some 3)) \<notin> set (map line_id (lines s'))
        \<and> get_sale_price ex_pool ex_carrier s' = Inr (Some (11 / 2), 1)
        \<and> (\<exists>s'' l'. apply_endicia_shipping ex_pool s' = Inr s''
              \<and> filter is_shipment_cost_line (lines s'') = [l']
              \<and> unit_price l' = 11 / 2 \<and> amount l' = 11 / 2
              \<and> shipment_cost l' = Some (11 / 2)
              \<and> line_id l \<notin> set (map line_id (lines s'')))"
    using a f v d g' second unfolding c by blast
  show ?thesis
    using ex_sale_fields(1,5,2) ex_searches(1) g nz c [of "11 / 2"] o first by blast
qed

end
